theory Spec2Isabelle
  imports Complex_Main
begin

section \<open>Python values used by the cashier program\<close>

subsection \<open>Strings: \<open>str.strip\<close> and \<open>str.lower\<close>\<close>

text \<open>
  A Python \<open>str\<close> is modelled as a \<open>string\<close>. The two string methods the cart uses
  come from the Python runtime, not from the repository; they are modelled on the
  ASCII range: \<open>strip\<close> removes the characters for which \<open>str.isspace\<close> holds
  (codes 9 to 13 and 28 to 32) from both ends, \<open>lower\<close> maps \<open>A\<close> .. \<open>Z\<close> to
  \<open>a\<close> .. \<open>z\<close> and leaves every other character alone. Whitespace and letters
  outside ASCII (the no-break space, an accented capital), which Python also strips and
  lowers, are outside this model. No theorem about the cart below unfolds the two
  functions, except to evaluate them on concrete ASCII names, so the general statements
  hold for any way of computing the key.
\<close>

definition isspace :: "char \<Rightarrow> bool" where
  "isspace c = (let n = (of_char c :: nat) in (9 \<le> n \<and> n \<le> 13) \<or> (28 \<le> n \<and> n \<le> 32))"

definition strip :: "string \<Rightarrow> string" where
  "strip s = rev (dropWhile isspace (rev (dropWhile isspace s)))"

definition lower_char :: "char \<Rightarrow> char" where
  "lower_char c = (let n = (of_char c :: nat) in
     if 65 \<le> n \<and> n \<le> 90 then char_of (n + 32) else c)"

definition lower :: "string \<Rightarrow> string" where
  "lower s = map lower_char s"

subsection \<open>Dictionaries with insertion order\<close>

text \<open>
  A Python \<open>dict\<close> iterates in insertion order, and the receipt lists the items in
  that order, so a dictionary is an association list: assigning to a key that is
  present keeps its position, assigning to a new key appends it, \<open>pop\<close> deletes
  the key and returns what was stored.
\<close>

type_synonym ('k, 'v) dict = "('k \<times> 'v) list"

definition dict_get :: "('k, 'v) dict \<Rightarrow> 'k \<Rightarrow> 'v option" where
  "dict_get d k = map_of d k"

fun dict_set :: "('k, 'v) dict \<Rightarrow> 'k \<Rightarrow> 'v \<Rightarrow> ('k, 'v) dict" where
  "dict_set [] k v = [(k, v)]"
| "dict_set ((k', v') # d) k v =
     (if k' = k then (k, v) # d else (k', v') # dict_set d k v)"

definition dict_pop :: "('k, 'v) dict \<Rightarrow> 'k \<Rightarrow> 'v option \<times> ('k, 'v) dict" where
  "dict_pop d k = (map_of d k, filter (\<lambda>kv. fst kv \<noteq> k) d)"

definition dict_values :: "('k, 'v) dict \<Rightarrow> 'v list" where
  "dict_values d = map snd d"

subsection \<open>Errors\<close>

text \<open>
  The source raises nothing itself; the exceptions below are the ones the Python
  runtime raises inside the operations the program uses. An uncaught exception ends
  the program, so a function that can raise returns \<open>error + 'a\<close>.
\<close>

datatype error = OverflowError | ZeroDivisionError | EOFError

definition bind_err :: "error + 'a \<Rightarrow> ('a \<Rightarrow> error + 'b) \<Rightarrow> error + 'b" where
  "bind_err r f = (case r of Inl e \<Rightarrow> Inl e | Inr v \<Rightarrow> f v)"

subsection \<open>Floats\<close>

text \<open>
  A Python \<open>float\<close> is an IEEE 754 binary64 value: a finite number (a rational, with
  the negative zero apart), an infinity or a NaN. Every arithmetic operation computes
  the exact result and rounds it to the nearest binary64 value, ties to even
  (\<open>round64\<close>): 53 significant bits, exponents down to the subnormal quantum
  \<open>2 ^ -1074\<close>, and an infinity from \<open>2 ^ 1024\<close> on.
\<close>

datatype pyfloat = Finite rat | NegZero | PosInf | NegInf | NaN

function bitlen :: "int \<Rightarrow> int" where
  "bitlen n = (if n \<le> 0 then 0 else 1 + bitlen (n div 2))"
  by pat_completeness auto
termination
  by (relation "measure nat") auto

declare bitlen.simps [simp del]

definition pow2 :: "int \<Rightarrow> rat" where
  "pow2 k = (if 0 \<le> k then 2 ^ nat k else 1 / 2 ^ nat (- k))"

text \<open>The exponent of a positive rational: the \<open>k\<close> with \<open>2 ^ k \<le> a < 2 ^ (k + 1)\<close>.\<close>

definition ilog2 :: "rat \<Rightarrow> int" where
  "ilog2 a = (let (p, q) = quotient_of a;
                  k = bitlen p - bitlen q
              in if pow2 k \<le> a then k else k - 1)"

definition round_half_even :: "rat \<Rightarrow> int" where
  "round_half_even y = (let f = \<lfloor>y\<rfloor>; d = y - of_int f in
     if d < 1 / 2 then f else if 1 / 2 < d then f + 1 else if even f then f else f + 1)"

definition round64 :: "rat \<Rightarrow> pyfloat" where
  "round64 x = (let a = \<bar>x\<bar>; e = max (ilog2 a) (- 1022); q = pow2 (e - 52);
                    m = of_int (round_half_even (a / q)) * q in
     if pow2 1024 \<le> m then (if x < 0 then NegInf else PosInf)
     else if m = 0 then (if x < 0 then NegZero else Finite 0)
     else Finite (if x < 0 then - m else m))"

fun is_nan :: "pyfloat \<Rightarrow> bool" where
  "is_nan NaN = True"
| "is_nan _ = False"

fun is_inf :: "pyfloat \<Rightarrow> bool" where
  "is_inf PosInf = True"
| "is_inf NegInf = True"
| "is_inf _ = False"

fun is_zero :: "pyfloat \<Rightarrow> bool" where
  "is_zero (Finite r) = (r = 0)"
| "is_zero NegZero = True"
| "is_zero _ = False"

text \<open>The sign bit (of a NaN it is never read).\<close>

fun negative :: "pyfloat \<Rightarrow> bool" where
  "negative (Finite r) = (r < 0)"
| "negative NegZero = True"
| "negative NegInf = True"
| "negative _ = False"

fun fval :: "pyfloat \<Rightarrow> rat" where
  "fval (Finite r) = r"
| "fval _ = 0"

definition signed_zero :: "bool \<Rightarrow> pyfloat" where
  "signed_zero neg = (if neg then NegZero else Finite 0)"

definition signed_inf :: "bool \<Rightarrow> pyfloat" where
  "signed_inf neg = (if neg then NegInf else PosInf)"

fun fneg :: "pyfloat \<Rightarrow> pyfloat" where
  "fneg (Finite r) = (if r = 0 then NegZero else Finite (- r))"
| "fneg NegZero = Finite 0"
| "fneg PosInf = NegInf"
| "fneg NegInf = PosInf"
| "fneg NaN = NaN"

definition fadd :: "pyfloat \<Rightarrow> pyfloat \<Rightarrow> pyfloat" where
  "fadd x y =
     (if is_nan x \<or> is_nan y then NaN
      else if is_inf x then (if is_inf y \<and> x \<noteq> y then NaN else x)
      else if is_inf y then y
      else if is_zero x \<and> is_zero y then signed_zero (negative x \<and> negative y)
      else if fval x + fval y = 0 then Finite 0
      else round64 (fval x + fval y))"

definition fsub :: "pyfloat \<Rightarrow> pyfloat \<Rightarrow> pyfloat" where
  "fsub x y = fadd x (fneg y)"

definition fmul :: "pyfloat \<Rightarrow> pyfloat \<Rightarrow> pyfloat" where
  "fmul x y =
     (if is_nan x \<or> is_nan y then NaN
      else if is_inf x \<or> is_inf y then
        (if is_zero x \<or> is_zero y then NaN else signed_inf (negative x \<noteq> negative y))
      else if is_zero x \<or> is_zero y then signed_zero (negative x \<noteq> negative y)
      else round64 (fval x * fval y))"

text \<open>Python raises on a float division by zero, whatever the dividend.\<close>

definition fdiv :: "pyfloat \<Rightarrow> pyfloat \<Rightarrow> error + pyfloat" where
  "fdiv x y =
     (if is_zero y then Inl ZeroDivisionError
      else Inr
        (if is_nan x \<or> is_nan y then NaN
         else if is_inf x then
           (if is_inf y then NaN else signed_inf (negative x \<noteq> negative y))
         else if is_inf y \<or> is_zero x then signed_zero (negative x \<noteq> negative y)
         else round64 (fval x / fval y)))"

text \<open>
  Converting an \<open>int\<close> to a \<open>float\<close> rounds it the same way and raises
  \<open>OverflowError\<close> when the rounded value is not finite.
\<close>

definition int_to_float :: "int \<Rightarrow> error + pyfloat" where
  "int_to_float n =
     (if n = 0 then Inr (Finite 0)
      else let x = round64 (of_int n) in if is_inf x then Inl OverflowError else Inr x)"

text \<open>The comparisons \<open>x >= 0\<close> and \<open>x < 0\<close> of a float with the integer 0: both false for a NaN.\<close>

fun float_ge0 :: "pyfloat \<Rightarrow> bool" where
  "float_ge0 (Finite r) = (0 \<le> r)"
| "float_ge0 NegZero = True"
| "float_ge0 PosInf = True"
| "float_ge0 NegInf = False"
| "float_ge0 NaN = False"

fun float_lt0 :: "pyfloat \<Rightarrow> bool" where
  "float_lt0 (Finite r) = (r < 0)"
| "float_lt0 NegInf = True"
| "float_lt0 _ = False"

subsection \<open>Numbers: \<open>int\<close> or \<open>float\<close>\<close>

text \<open>
  \<open>sum\<close> over no items returns the integer 0 and over floats a float, so the
  amounts of the cart are Python numbers of either type. Arithmetic on two integers
  is exact; with a float on either side the integer is converted first.
\<close>

datatype pynum = PyInt int | PyFloat pyfloat

fun to_float :: "pynum \<Rightarrow> error + pyfloat" where
  "to_float (PyInt n) = int_to_float n"
| "to_float (PyFloat x) = Inr x"

fun py_add :: "pynum \<Rightarrow> pynum \<Rightarrow> error + pynum" where
  "py_add (PyInt m) (PyInt n) = Inr (PyInt (m + n))"
| "py_add a b =
     bind_err (to_float a) (\<lambda>x. bind_err (to_float b) (\<lambda>y. Inr (PyFloat (fadd x y))))"

fun py_sub :: "pynum \<Rightarrow> pynum \<Rightarrow> error + pynum" where
  "py_sub (PyInt m) (PyInt n) = Inr (PyInt (m - n))"
| "py_sub a b =
     bind_err (to_float a) (\<lambda>x. bind_err (to_float b) (\<lambda>y. Inr (PyFloat (fsub x y))))"

fun py_mul :: "pynum \<Rightarrow> pynum \<Rightarrow> error + pynum" where
  "py_mul (PyInt m) (PyInt n) = Inr (PyInt (m * n))"
| "py_mul a b =
     bind_err (to_float a) (\<lambda>x. bind_err (to_float b) (\<lambda>y. Inr (PyFloat (fmul x y))))"

text \<open>
  True division, \<open>a / b\<close>. The quotient of two integers is rounded once, from the
  exact quotient.
\<close>

fun py_truediv :: "pynum \<Rightarrow> pynum \<Rightarrow> error + pynum" where
  "py_truediv (PyInt m) (PyInt n) =
     (if n = 0 then Inl ZeroDivisionError
      else if m = 0 then Inr (PyFloat (signed_zero (n < 0)))
      else let x = round64 (of_int m / of_int n) in
           if is_inf x then Inl OverflowError else Inr (PyFloat x))"
| "py_truediv a b =
     bind_err (to_float a) (\<lambda>x. bind_err (to_float b) (\<lambda>y.
       bind_err (fdiv x y) (\<lambda>z. Inr (PyFloat z))))"

text \<open>The test \<open>x == 0\<close>.\<close>

fun py_is_zero :: "pynum \<Rightarrow> bool" where
  "py_is_zero (PyInt n) = (n = 0)"
| "py_is_zero (PyFloat x) = is_zero x"

text \<open>
  The builtin \<open>sum\<close>: it starts from the integer 0 and adds the items from left to
  right; an item whose computation raises ends the sum with that exception. (CPython
  from 3.12 on adds a compensation term to a sum of floats, which can change the
  rounding of a sum of two or more floats; the left-to-right sum is modelled.)
\<close>

fun py_sum_from :: "pynum \<Rightarrow> (error + pynum) list \<Rightarrow> error + pynum" where
  "py_sum_from acc [] = Inr acc"
| "py_sum_from acc (x # xs) =
     bind_err x (\<lambda>v. bind_err (py_add acc v) (\<lambda>acc'. py_sum_from acc' xs))"

definition py_sum :: "(error + pynum) list \<Rightarrow> error + pynum" where
  "py_sum xs = py_sum_from (PyInt 0) xs"

section \<open>The cart model\<close>

record CartItem =
  name :: string
  price :: pyfloat
  quantity :: int

record CashierCart =
  items :: "(string, CartItem) dict"
  discount_percent :: pyfloat
  tax_percent :: pyfloat

definition add_item :: "CashierCart \<Rightarrow> string \<Rightarrow> pyfloat \<Rightarrow> int \<Rightarrow> CashierCart" where
  "add_item self nm pr qty =
     (let key = lower (strip nm) in
      case dict_get (items self) key of
        Some it \<Rightarrow>
          self\<lparr>items := dict_set (items self) key
                           (it\<lparr>quantity := quantity it + qty, price := pr\<rparr>)\<rparr>
      | None \<Rightarrow>
          self\<lparr>items := dict_set (items self) key
                           \<lparr>name = strip nm, price = pr, quantity = qty\<rparr>\<rparr>)"

definition remove_item :: "CashierCart \<Rightarrow> string \<Rightarrow> bool \<times> CashierCart" where
  "remove_item self nm =
     (let key = lower (strip nm);
          (popped, d) = dict_pop (items self) key
      in (popped \<noteq> None, self\<lparr>items := d\<rparr>))"

definition update_quantity :: "CashierCart \<Rightarrow> string \<Rightarrow> int \<Rightarrow> bool \<times> CashierCart" where
  "update_quantity self nm qty =
     (let key = lower (strip nm) in
      case dict_get (items self) key of
        None \<Rightarrow> (False, self)
      | Some it \<Rightarrow>
          if qty \<le> 0 then (True, self\<lparr>items := snd (dict_pop (items self) key)\<rparr>)
          else (True, self\<lparr>items := dict_set (items self) key (it\<lparr>quantity := qty\<rparr>)\<rparr>))"

definition clear :: "CashierCart \<Rightarrow> CashierCart" where
  "clear self = self\<lparr>items := [], discount_percent := Finite 0, tax_percent := Finite 0\<rparr>"

definition total :: "CartItem \<Rightarrow> error + pynum" where
  "total self = py_mul (PyFloat (price self)) (PyInt (quantity self))"

definition subtotal :: "CashierCart \<Rightarrow> error + pynum" where
  "subtotal self = py_sum (map total (dict_values (items self)))"

definition discount_amount :: "CashierCart \<Rightarrow> error + pynum" where
  "discount_amount self =
     bind_err (subtotal self) (\<lambda>s.
     bind_err (py_truediv (PyFloat (discount_percent self)) (PyInt 100)) (\<lambda>r.
     py_mul s r))"

definition tax_amount :: "CashierCart \<Rightarrow> error + pynum" where
  "tax_amount self =
     bind_err (subtotal self) (\<lambda>s.
     bind_err (discount_amount self) (\<lambda>d.
     bind_err (py_sub s d) (\<lambda>base.
     bind_err (py_truediv (PyFloat (tax_percent self)) (PyInt 100)) (\<lambda>r.
     py_mul base r))))"

definition total_due :: "CashierCart \<Rightarrow> error + pynum" where
  "total_due self =
     bind_err (subtotal self) (\<lambda>s.
     bind_err (discount_amount self) (\<lambda>d.
     bind_err (py_sub s d) (\<lambda>net.
     bind_err (tax_amount self) (\<lambda>t.
     py_add net t))))"

section \<open>Formatting\<close>

text \<open>\<open>str\<close> of an integer: its decimal digits, with a minus sign when negative.\<close>

definition digit_char :: "int \<Rightarrow> char" where
  "digit_char d = ''0123456789'' ! nat d"

function digits_of :: "int \<Rightarrow> string" where
  "digits_of n = (if n < 10 then [digit_char n] else digits_of (n div 10) @ [digit_char (n mod 10)])"
  by pat_completeness auto
termination
  by (relation "measure nat") auto

declare digits_of.simps [simp del]

definition str_int :: "int \<Rightarrow> string" where
  "str_int n = (if n < 0 then CHR ''-'' # digits_of (- n) else digits_of n)"

text \<open>The \<open>,\<close> option of a format: a comma before every group of three digits.\<close>

fun group_rev :: "string \<Rightarrow> string" where
  "group_rev (a # b # c # d # ds) = a # b # c # CHR '','' # group_rev (d # ds)"
| "group_rev ds = ds"

definition group3 :: "string \<Rightarrow> string" where
  "group3 s = rev (group_rev (rev s))"

text \<open>
  The formats \<open>.1f\<close>, \<open>.2f\<close> and \<open>,.2f\<close>: the exact value of the float is rounded to
  \<open>p\<close> decimals, ties to even, and written with exactly \<open>p\<close> digits after the point; an
  infinity and a NaN are written \<open>inf\<close>, \<open>-inf\<close> and \<open>nan\<close>. \<open>fixed_digits\<close> writes
  the rounded value from its multiple \<open>n\<close> of \<open>10 ^ -p\<close>.
\<close>

definition fixed_digits :: "bool \<Rightarrow> nat \<Rightarrow> int \<Rightarrow> string" where
  "fixed_digits comma p n =
     (let ip = digits_of (n div 10 ^ p); fp = digits_of (n mod 10 ^ p) in
      (if comma then group3 ip else ip) @
      (if p = 0 then [] else CHR ''.'' # replicate (p - length fp) CHR ''0'' @ fp))"

fun format_float :: "bool \<Rightarrow> nat \<Rightarrow> pyfloat \<Rightarrow> string" where
  "format_float comma p (Finite r) =
     (if r < 0 then ''-'' else '''') @ fixed_digits comma p (round_half_even (\<bar>r\<bar> * 10 ^ p))"
| "format_float comma p NegZero = ''-'' @ fixed_digits comma p 0"
| "format_float comma p PosInf = ''inf''"
| "format_float comma p NegInf = ''-inf''"
| "format_float comma p NaN = ''nan''"

declare format_float.simps [simp del]

text \<open>An integer under these formats is converted to a float first.\<close>

definition format_num :: "bool \<Rightarrow> nat \<Rightarrow> pynum \<Rightarrow> error + string" where
  "format_num comma p v = bind_err (to_float v) (\<lambda>x. Inr (format_float comma p x))"

definition format_currency :: "pynum \<Rightarrow> error + string" where
  "format_currency v = format_num True 2 v"

section \<open>The session: console, receipts and the command loop\<close>

text \<open>
  The console is the list of lines not yet read and the list of lines written. The
  messages of the program are bilingual; a written line is kept as its ASCII text:
  \<open>Msg\<close> is a line in Arabic and English (the English half is kept), \<open>Warn\<close> one that
  starts with the warning sign, \<open>Done\<close> one that starts with the check mark, \<open>Text\<close> a
  line that is ASCII as it is, \<open>Prompt\<close> the prompt of an \<open>input\<close> call. A newline at
  the start of a message is left out.
  The file system is the dictionary of the files written, each the list of the rows
  given to \<open>csv.writer.writerow\<close>, every cell as the string the writer makes of it;
  directories are not tracked, and a write always succeeds.
\<close>

datatype line = Msg string | Warn string | Done string | Text string | Prompt string

type_synonym filesys = "(string, string list list) dict"

record world =
  cart :: CashierCart
  stdin :: "string list"
  stdout :: "line list"
  files :: filesys

definition print :: "line list \<Rightarrow> world \<Rightarrow> world" where
  "print ls w = w\<lparr>stdout := stdout w @ ls\<rparr>"

text \<open>\<open>input(prompt)\<close> writes the prompt and reads one line; at the end of the input it raises.\<close>

definition input :: "string \<Rightarrow> world \<Rightarrow> error + (string \<times> world)" where
  "input prompt w =
     (case stdin w of
        [] \<Rightarrow> Inl EOFError
      | l # ls \<Rightarrow> Inr (l, w\<lparr>stdin := ls, stdout := stdout w @ [Prompt prompt]\<rparr>))"

definition menu_lines :: "line list" where
  "menu_lines =
     [Msg ''Choose action:'', Msg ''1) View cart'', Msg ''2) Add item'',
      Msg ''3) Update quantity'', Msg ''4) Remove item'', Msg ''5) Set discount %'',
      Msg ''6) Set tax %'', Msg ''7) Checkout & save'', Msg ''8) Clear cart'', Msg ''0) Exit'']"

definition print_menu :: "world \<Rightarrow> world" where
  "print_menu w = print menu_lines w"

fun cart_item_lines :: "CartItem list \<Rightarrow> error + line list" where
  "cart_item_lines [] = Inr []"
| "cart_item_lines (it # its) =
     bind_err (format_currency (PyFloat (price it))) (\<lambda>p.
     bind_err (bind_err (total it) format_currency) (\<lambda>t.
     bind_err (cart_item_lines its) (\<lambda>ls.
     Inr (Text (name it @ '' | Qty: '' @ str_int (quantity it) @ '' | Price: '' @ p @
                '' | Total: '' @ t) # ls))))"

definition print_cart :: "CashierCart \<Rightarrow> error + line list" where
  "print_cart c =
     (if items c = [] then Inr [Msg ''Cart is empty.'']
      else
        bind_err (cart_item_lines (dict_values (items c))) (\<lambda>ls.
        bind_err (bind_err (subtotal c) format_currency) (\<lambda>s.
        bind_err
          (if \<not> is_zero (discount_percent c) then
             bind_err (bind_err (discount_amount c) format_currency) (\<lambda>d.
             Inr [Text (''Discount ('' @ format_float False 1 (discount_percent c) @ ''%): -'' @ d)])
           else Inr []) (\<lambda>dl.
        bind_err
          (if \<not> is_zero (tax_percent c) then
             bind_err (bind_err (tax_amount c) format_currency) (\<lambda>t.
             Inr [Text (''Tax ('' @ format_float False 1 (tax_percent c) @ ''%): +'' @ t)])
           else Inr []) (\<lambda>tl.
        bind_err (bind_err (total_due c) format_currency) (\<lambda>u.
        Inr ([Msg ''Current cart:'', Text (replicate 50 CHR ''-'')] @ ls @
             [Text (replicate 50 CHR ''-''), Text (''Subtotal: '' @ s)] @ dl @ tl @
             [Text (''Total Due: '' @ u)])))))))"

text \<open>
  \<open>prompt_float\<close> and \<open>prompt_int\<close> read lines until one parses (and, for a float, is
  not below 0). The parsers \<open>float()\<close> and \<open>int()\<close> of Python are parameters:
  \<open>None\<close> is their \<open>ValueError\<close>.
\<close>

fun prompt_float_lines ::
  "(string \<Rightarrow> pyfloat option) \<Rightarrow> string \<Rightarrow> string list \<Rightarrow> line list \<Rightarrow>
   error + (pyfloat \<times> string list \<times> line list)" where
  "prompt_float_lines pf message [] out = Inl EOFError"
| "prompt_float_lines pf message (l # ls) out =
     (case pf (strip l) of
        None \<Rightarrow>
          prompt_float_lines pf message ls (out @ [Prompt message, Warn ''Enter a valid number.''])
      | Some v \<Rightarrow>
          if float_lt0 v then
            prompt_float_lines pf message ls (out @ [Prompt message, Warn ''Must be non-negative.''])
          else Inr (v, ls, out @ [Prompt message]))"

definition prompt_float ::
  "(string \<Rightarrow> pyfloat option) \<Rightarrow> string \<Rightarrow> world \<Rightarrow> error + (pyfloat \<times> world)" where
  "prompt_float pf message w =
     bind_err (prompt_float_lines pf message (stdin w) (stdout w)) (\<lambda>(v, ins, out).
     Inr (v, w\<lparr>stdin := ins, stdout := out\<rparr>))"

fun prompt_int_lines ::
  "(string \<Rightarrow> int option) \<Rightarrow> string \<Rightarrow> string list \<Rightarrow> line list \<Rightarrow>
   error + (int \<times> string list \<times> line list)" where
  "prompt_int_lines pint message [] out = Inl EOFError"
| "prompt_int_lines pint message (l # ls) out =
     (case pint (strip l) of
        None \<Rightarrow> prompt_int_lines pint message ls (out @ [Prompt message, Warn ''Enter an integer.''])
      | Some v \<Rightarrow> Inr (v, ls, out @ [Prompt message]))"

definition prompt_int ::
  "(string \<Rightarrow> int option) \<Rightarrow> string \<Rightarrow> world \<Rightarrow> error + (int \<times> world)" where
  "prompt_int pint message w =
     bind_err (prompt_int_lines pint message (stdin w) (stdout w)) (\<lambda>(v, ins, out).
     Inr (v, w\<lparr>stdin := ins, stdout := out\<rparr>))"

text \<open>
  \<open>save_receipt\<close>: the time stamp is what \<open>datetime.now().strftime\<close> returns at the
  call. Opening the path for writing replaces a file of that name.
\<close>

fun receipt_item_rows :: "CartItem list \<Rightarrow> error + string list list" where
  "receipt_item_rows [] = Inr []"
| "receipt_item_rows (it # its) =
     bind_err (bind_err (total it) (format_num False 2)) (\<lambda>t.
     bind_err (receipt_item_rows its) (\<lambda>rows.
     Inr ([name it, str_int (quantity it), format_float False 2 (price it), t] # rows)))"

definition save_receipt ::
  "CashierCart \<Rightarrow> string \<Rightarrow> string \<Rightarrow> filesys \<Rightarrow> error + (string \<times> filesys)" where
  "save_receipt c output_dir timestamp fs =
     (let receipt_path = output_dir @ ''/receipt_'' @ timestamp @ ''.csv'' in
      bind_err (receipt_item_rows (dict_values (items c))) (\<lambda>rows.
      bind_err (bind_err (subtotal c) (format_num False 2)) (\<lambda>s.
      bind_err (bind_err (discount_amount c) (format_num False 2)) (\<lambda>d.
      bind_err (bind_err (tax_amount c) (format_num False 2)) (\<lambda>t.
      bind_err (bind_err (total_due c) (format_num False 2)) (\<lambda>u.
      Inr (receipt_path,
           dict_set fs receipt_path
             ([[''Item'', ''Qty'', ''Price'', ''Total'']] @ rows @ [[]] @
              [[''Subtotal'', s],
               [''Discount %'', format_float False 1 (discount_percent c)],
               [''Discount Amount'', d],
               [''Tax %'', format_float False 1 (tax_percent c)],
               [''Tax Amount'', t],
               [''Total Due'', u]]))))))))"

text \<open>
  One pass through the body of the \<open>while True\<close> loop of \<open>run_cashier\<close>: the menu, the
  choice, and the branch of the choice. The result says whether the loop goes on
  (\<open>False\<close> after the choice 0) and gives the state after the pass; an exception ends
  the program.
\<close>

definition run_cashier_pass ::
  "(string \<Rightarrow> pyfloat option) \<Rightarrow> (string \<Rightarrow> int option) \<Rightarrow> string \<Rightarrow> world \<Rightarrow>
   error + (bool \<times> world)" where
  "run_cashier_pass pf pint now w0 =
     bind_err (input ''Your choice: '' (print_menu w0)) (\<lambda>(raw, w).
     let choice = strip raw in
     if choice = ''1'' then
       bind_err (print_cart (cart w)) (\<lambda>ls. Inr (True, print ls w))
     else if choice = ''2'' then
       bind_err (input ''Item name: '' w) (\<lambda>(raw_name, w1).
       let nm = strip raw_name in
       if nm = [] then Inr (True, print [Warn ''Item name is required.''] w1)
       else
         bind_err (prompt_float pf ''Item price: '' w1) (\<lambda>(pr, w2).
         bind_err (prompt_int pint ''Quantity: '' w2) (\<lambda>(qty, w3).
         if qty \<le> 0 then Inr (True, print [Warn ''Quantity must be > 0.''] w3)
         else Inr (True, print [Done ''Item added.'']
                           (w3\<lparr>cart := add_item (cart w3) nm pr qty\<rparr>)))))
     else if choice = ''3'' then
       bind_err (input ''Item name: '' w) (\<lambda>(raw_name, w1).
       bind_err (prompt_int pint ''New quantity: '' w1) (\<lambda>(qty, w2).
       let (found, c) = update_quantity (cart w2) (strip raw_name) qty in
       if \<not> found then Inr (True, print [Warn ''Item not found.''] (w2\<lparr>cart := c\<rparr>))
       else Inr (True, print [Done ''Quantity updated.''] (w2\<lparr>cart := c\<rparr>))))
     else if choice = ''4'' then
       bind_err (input ''Item name: '' w) (\<lambda>(raw_name, w1).
       let (removed, c) = remove_item (cart w1) (strip raw_name) in
       if removed then Inr (True, print [Done ''Item removed.''] (w1\<lparr>cart := c\<rparr>))
       else Inr (True, print [Warn ''Item not found.''] (w1\<lparr>cart := c\<rparr>)))
     else if choice = ''5'' then
       bind_err (prompt_float pf ''Discount %: '' w) (\<lambda>(v, w1).
       Inr (True, print [Done ''Discount updated.'']
                    (w1\<lparr>cart := (cart w1)\<lparr>discount_percent := v\<rparr>\<rparr>)))
     else if choice = ''6'' then
       bind_err (prompt_float pf ''Tax %: '' w) (\<lambda>(v, w1).
       Inr (True, print [Done ''Tax updated.'']
                    (w1\<lparr>cart := (cart w1)\<lparr>tax_percent := v\<rparr>\<rparr>)))
     else if choice = ''7'' then
       if items (cart w) = [] then Inr (True, print [Warn ''Cart is empty.''] w)
       else
         bind_err (print_cart (cart w)) (\<lambda>ls.
         let w1 = print ls w in
         bind_err (save_receipt (cart w1) ''receipts'' now (files w1)) (\<lambda>(receipt_path, fs).
         let w2 = print [Done (''Receipt saved: '' @ receipt_path)] (w1\<lparr>files := fs\<rparr>) in
         Inr (True, w2\<lparr>cart := clear (cart w2)\<rparr>)))
     else if choice = ''8'' then
       Inr (True, print [Done ''Cart cleared.''] (w\<lparr>cart := clear (cart w)\<rparr>))
     else if choice = ''0'' then Inr (False, print [Msg ''Goodbye!''] w)
     else Inr (True, print [Warn ''Invalid choice.''] w))"

text \<open>\<open>CashierCart()\<close>: the dataclass defaults, as \<open>run_cashier\<close> creates the cart.\<close>

definition new_cart :: CashierCart where
  "new_cart = \<lparr>items = [], discount_percent = Finite 0, tax_percent = Finite 0\<rparr>"

section \<open>Notions used to state the properties\<close>

text \<open>The key every cart method computes from a name: \<open>name.strip().lower()\<close>.\<close>

definition normalized_key :: "string \<Rightarrow> string" where
  "normalized_key nm = lower (strip nm)"

text \<open>A sequence of \<open>add_item\<close> calls, each given as (name, price, quantity).\<close>

fun add_items :: "CashierCart \<Rightarrow> (string \<times> pyfloat \<times> int) list \<Rightarrow> CashierCart" where
  "add_items c [] = c"
| "add_items c ((nm, pr, qty) # calls) = add_items (add_item c nm pr qty) calls"

text \<open>The quantity stored under a key, 0 when the key is absent.\<close>

definition stored_quantity :: "CashierCart \<Rightarrow> string \<Rightarrow> int" where
  "stored_quantity c k = (case dict_get (items c) k of None \<Rightarrow> 0 | Some it \<Rightarrow> quantity it)"

text \<open>
  The mutating operations of the cart as data, to speak about the states a sequence of
  calls reaches. \<open>caller_ok\<close> is the precondition of \<open>add_item\<close> on its caller: a name
  that is not empty after stripping, a price \<open>>= 0\<close>, a quantity above 0.
  (\<open>run_cashier\<close> checks the name and the quantity; of the price \<open>prompt_float\<close>
  rejects only a value below 0, so a NaN, which is neither below 0 nor \<open>>= 0\<close>,
  passes the prompt and is outside this precondition.)
\<close>

datatype cart_op =
  AddItem string pyfloat int | RemoveItem string | UpdateQuantity string int | Clear

fun apply_op :: "CashierCart \<Rightarrow> cart_op \<Rightarrow> CashierCart" where
  "apply_op c (AddItem nm pr qty) = add_item c nm pr qty"
| "apply_op c (RemoveItem nm) = snd (remove_item c nm)"
| "apply_op c (UpdateQuantity nm qty) = snd (update_quantity c nm qty)"
| "apply_op c Clear = clear c"

fun caller_ok :: "cart_op \<Rightarrow> bool" where
  "caller_ok (AddItem nm pr qty) = (strip nm \<noteq> [] \<and> float_ge0 pr \<and> 0 < qty)"
| "caller_ok _ = True"

fun run_ops :: "CashierCart \<Rightarrow> cart_op list \<Rightarrow> CashierCart" where
  "run_ops c [] = c"
| "run_ops c (op # ops) = run_ops (apply_op c op) ops"

definition item_ok :: "CartItem \<Rightarrow> bool" where
  "item_ok it = (0 < quantity it \<and> float_ge0 (price it))"

definition cart_inv :: "CashierCart \<Rightarrow> bool" where
  "cart_inv c = list_all item_ok (dict_values (items c))"

text \<open>
  A quantity fits when converting it to a float does not raise, that is, when it rounds
  to a finite binary64 value.
\<close>

definition quantity_fits :: "CartItem \<Rightarrow> bool" where
  "quantity_fits it = (case int_to_float (quantity it) of Inl e \<Rightarrow> False | Inr x \<Rightarrow> True)"

text \<open>The receipt row of an item whose line total is the float \<open>v\<close>.\<close>

definition receipt_row :: "CartItem \<Rightarrow> pyfloat \<Rightarrow> string list" where
  "receipt_row it v =
     [name it, str_int (quantity it), format_float False 2 (price it), format_float False 2 v]"

definition line_total :: "CartItem \<Rightarrow> pyfloat \<Rightarrow> bool" where
  "line_total it v = (total it = Inr (PyFloat v))"

text \<open>
  A string in fixed point with \<open>p\<close> decimals: an optional minus sign, at least one digit,
  the point, and exactly \<open>p\<close> digits. A float is ordinary when it is neither an infinity
  nor a NaN; the values of a receipt are finite when the prices, the percentages, the line
  totals and the four amounts are ordinary floats.
\<close>

definition is_digit :: "char \<Rightarrow> bool" where
  "is_digit c = (c \<in> set ''0123456789'')"

definition fixed_point :: "nat \<Rightarrow> string \<Rightarrow> bool" where
  "fixed_point p s =
     (let body = (if take 1 s = ''-'' then drop 1 s else s);
          ip = take (length body - Suc p) body;
          rest = drop (length body - Suc p) body
      in ip \<noteq> [] \<and> list_all is_digit ip \<and>
         length rest = Suc p \<and> take 1 rest = ''.'' \<and> list_all is_digit (drop 1 rest))"

definition ordinary :: "pyfloat \<Rightarrow> bool" where
  "ordinary x = (\<not> is_inf x \<and> \<not> is_nan x)"

definition finite_amount :: "error + pynum \<Rightarrow> bool" where
  "finite_amount r = (case r of Inr (PyFloat x) \<Rightarrow> ordinary x | _ \<Rightarrow> False)"

definition receipt_values_finite :: "CashierCart \<Rightarrow> bool" where
  "receipt_values_finite c =
     (list_all (\<lambda>it. ordinary (price it) \<and> finite_amount (total it)) (dict_values (items c)) \<and>
      ordinary (discount_percent c) \<and> ordinary (tax_percent c) \<and>
      finite_amount (subtotal c) \<and> finite_amount (discount_amount c) \<and>
      finite_amount (tax_amount c) \<and> finite_amount (total_due c))"

text \<open>The sum of the quantities of a sequence of calls.\<close>

definition added_quantities :: "(string \<times> pyfloat \<times> int) list \<Rightarrow> int" where
  "added_quantities calls = sum_list (map (\<lambda>call. snd (snd call)) calls)"

text \<open>Example states and calls.\<close>

definition coffee_cart :: CashierCart where
  "coffee_cart =
     \<lparr>items = [(''coffee'', \<lparr>name = ''Coffee'', price = Finite (7 / 2), quantity = 2\<rparr>)],
      discount_percent = Finite 10, tax_percent = Finite 5\<rparr>"

definition fifty_cart :: CashierCart where
  "fifty_cart =
     \<lparr>items = [(''widget'', \<lparr>name = ''Widget'', price = Finite 50, quantity = 2\<rparr>)],
      discount_percent = Finite 10, tax_percent = Finite 5\<rparr>"


definition huge_cart :: CashierCart where
  "huge_cart =
     \<lparr>items = [(''x'', \<lparr>name = ''x'', price = Finite 1, quantity = 2 ^ 1024\<rparr>)],
      discount_percent = Finite 0, tax_percent = Finite 0\<rparr>"

definition inf_cart :: CashierCart where
  "inf_cart = \<lparr>items = [(''x'', \<lparr>name = ''x'', price = PosInf, quantity = 1\<rparr>)],
               discount_percent = Finite 0, tax_percent = Finite 0\<rparr>"

definition demo_ops :: "cart_op list" where
  "demo_ops = [AddItem ''Coffee'' (Finite (7 / 2)) 2, AddItem '' coffee '' (Finite 4) 1,
               UpdateQuantity ''Coffee'' 5, AddItem ''Tea'' PosInf 1,
               UpdateQuantity ''Tea'' 0, RemoveItem ''Milk'']"

definition empty_world :: world where
  "empty_world = \<lparr>cart = \<lparr>items = [], discount_percent = Finite 10, tax_percent = Finite 5\<rparr>,
                   stdin = ['' 7 '', ''0''], stdout = [], files = []\<rparr>"

definition reject_float :: "string \<Rightarrow> pyfloat option" where
  "reject_float s = None"

definition reject_int :: "string \<Rightarrow> int option" where
  "reject_int s = None"

definition fifty_world :: world where
  "fifty_world = \<lparr>cart = fifty_cart, stdin = [''7''], stdout = [], files = []\<rparr>"

definition inf_world :: world where
  "inf_world = \<lparr>cart = inf_cart, stdin = [''7''], stdout = [], files = []\<rparr>"

definition huge_world :: world where
  "huge_world = \<lparr>cart = huge_cart, stdin = [''7''], stdout = [], files = []\<rparr>"

text \<open>
  A finite binary64 value: a zero, or a rational that rounding leaves alone. (The
  constructor \<open>Finite\<close> holds any rational; only these are floats.)
\<close>

definition finite_float :: "pyfloat \<Rightarrow> bool" where
  "finite_float x = (case x of Finite r \<Rightarrow> r = 0 \<or> round64 r = Finite r
                     | NegZero \<Rightarrow> True | _ \<Rightarrow> False)"

section \<open>Results and dictionaries\<close>

lemma bind_err_Inr: "bind_err (Inr v) f = f v"
  by (simp add: bind_err_def)

lemma bind_err_Inl: "bind_err (Inl e) f = Inl e"
  by (simp add: bind_err_def)

lemma dict_get_set_same: "dict_get (dict_set d k v) k = Some v"
  by (induction d) (auto simp: dict_get_def)

lemma dict_get_set_other: "k' \<noteq> k \<Longrightarrow> dict_get (dict_set d k v) k' = dict_get d k'"
  by (induction d) (auto simp: dict_get_def)

lemma dict_keys_set_present:
  "dict_get d k = Some v0 \<Longrightarrow> map fst (dict_set d k v) = map fst d"
  by (induction d) (auto simp: dict_get_def)

lemma dict_pop_absent: "dict_get d k = None \<Longrightarrow> snd (dict_pop d k) = d"
  by (induction d) (auto simp: dict_pop_def dict_get_def split: if_splits)

lemma dict_get_pop: "dict_get (snd (dict_pop d k)) k' = (if k' = k then None else dict_get d k')"
  by (induction d) (auto simp: dict_pop_def dict_get_def)

lemma add_item_present:
  "dict_get (items c) (normalized_key nm) = Some it \<Longrightarrow>
   add_item c nm pr qty =
     c\<lparr>items := dict_set (items c) (normalized_key nm) (it\<lparr>quantity := quantity it + qty, price := pr\<rparr>)\<rparr>"
  by (simp add: add_item_def normalized_key_def)

lemma add_item_absent:
  "dict_get (items c) (normalized_key nm) = None \<Longrightarrow>
   add_item c nm pr qty =
     c\<lparr>items := dict_set (items c) (normalized_key nm) \<lparr>name = strip nm, price = pr, quantity = qty\<rparr>\<rparr>"
  by (simp add: add_item_def normalized_key_def)

lemma add_item_lookup:
  "\<exists>it. dict_get (items (add_item c nm pr qty)) (normalized_key nm) = Some it \<and>
        quantity it = stored_quantity c (normalized_key nm) + qty \<and> price it = pr"
  by (cases "dict_get (items c) (normalized_key nm)")
     (simp_all add: add_item_present add_item_absent dict_get_set_same stored_quantity_def)

lemma add_items_lookup:
  "calls \<noteq> [] \<Longrightarrow> \<forall>call\<in>set calls. normalized_key (fst call) = k \<Longrightarrow>
   \<exists>it. dict_get (items (add_items c calls)) k = Some it \<and>
        quantity it = stored_quantity c k + added_quantities calls \<and>
        price it = fst (snd (last calls))"
proof (induction calls arbitrary: c)
  case Nil
  then show ?case by simp
next
  case (Cons call calls)
  obtain nm pr qty where call: "call = (nm, pr, qty)" by (cases call) auto
  from Cons.prems have k: "normalized_key nm = k" by (simp add: call)
  obtain it where it: "dict_get (items (add_item c nm pr qty)) k = Some it"
    "quantity it = stored_quantity c k + qty" "price it = pr"
    using add_item_lookup [of c nm pr qty] k by auto
  show ?case
  proof (cases "calls = []")
    case True
    then show ?thesis using it by (simp add: call added_quantities_def)
  next
    case False
    have "\<forall>call\<in>set calls. normalized_key (fst call) = k" using Cons.prems by simp
    from Cons.IH [OF False this, of "add_item c nm pr qty"]
    obtain it' where "dict_get (items (add_items (add_item c nm pr qty) calls)) k = Some it'"
      "quantity it' = stored_quantity (add_item c nm pr qty) k + added_quantities calls"
      "price it' = fst (snd (last calls))" by auto
    then show ?thesis using it False by (simp add: call stored_quantity_def added_quantities_def)
  qed
qed

section \<open>Adding items\<close>

text \<open>The names of the examples, evaluated.\<close>

lemma strip_Coffee: "strip ''Coffee'' = ''Coffee''"
  by (simp add: strip_def isspace_def)

lemma strip_coffee_sp: "strip '' coffee '' = ''coffee''"
  by (simp add: strip_def isspace_def)

lemma lower_Coffee: "lower ''Coffee'' = ''coffee''"
  by code_simp

lemma lower_coffee: "lower ''coffee'' = ''coffee''"
  by (simp add: lower_def lower_char_def)

lemma nk1: "normalized_key ''Coffee'' = ''coffee''"
  by (simp add: normalized_key_def strip_Coffee lower_Coffee)

lemma nk2: "normalized_key '' coffee '' = ''coffee''"
  by (simp add: normalized_key_def strip_coffee_sp lower_coffee)

lemma strip_Tea: "strip ''Tea'' = ''Tea''"
  by (simp add: strip_def isspace_def)

lemma lower_Tea: "lower ''Tea'' = ''tea''"
  by code_simp

lemma lower_Milk: "lower (strip ''Milk'') = ''milk''"
  by code_simp

lemma nk_Tea: "normalized_key ''Tea'' = ''tea''"
  by (simp add: normalized_key_def strip_Tea lower_Tea)

lemma coffee_cart_lookups:
  "dict_get (items coffee_cart) ''coffee'' =
     Some \<lparr>name = ''Coffee'', price = Finite (7 / 2), quantity = 2\<rparr>"
  "dict_get (items coffee_cart) ''tea'' = None"
  by (simp_all add: coffee_cart_def dict_get_def)

text \<open>
  Claim C1, amended. For every cart and every non-empty sequence of \<open>add_item\<close> calls
  whose names have the same normalized key \<open>k\<close>, the cart then holds an item under \<open>k\<close>
  whose quantity is the quantity stored under \<open>k\<close> before the sequence (0 when the key was
  absent) plus the sum of the added quantities, and whose price is the price of the last
  call. When the key of a name is absent, \<open>add_item\<close> inserts a new item whose display
  name is the stripped name.
\<close>

theorem add_item_sequence:
  "(calls \<noteq> [] \<and> (\<forall>call\<in>set calls. normalized_key (fst call) = k) \<longrightarrow>
      (\<exists>it. dict_get (items (add_items c calls)) k = Some it \<and>
            quantity it = stored_quantity c k + added_quantities calls \<and>
            price it = fst (snd (last calls)))) \<and>
   (dict_get (items c) (normalized_key nm) = None \<longrightarrow>
      dict_get (items (add_item c nm pr qty)) (normalized_key nm) =
        Some \<lparr>name = strip nm, price = pr, quantity = qty\<rparr>)"
  using add_items_lookup [of calls k c]
  by (auto simp: add_item_absent dict_get_set_same)

theorem add_item_sequence_witness:
  "\<exists>it. dict_get (items (add_items new_cart
            [(''Coffee'', Finite (7 / 2), 2), ('' coffee '', Finite 4, 1)])) ''coffee'' = Some it \<and>
        quantity it = 3 \<and> price it = Finite 4"
  using add_item_sequence [of "[(''Coffee'', Finite (7 / 2), 2), ('' coffee '', Finite 4, 1)]"
      "''coffee''" new_cart "''Coffee''" "Finite 4" 1]
  by (simp add: nk1 nk2 stored_quantity_def new_cart_def dict_get_def added_quantities_def)

text \<open>
  Claim C1 as stated, with the sum of the added quantities alone, fails on a cart that
  already holds the key: with two coffees in the cart, adding one more stores 3, and the
  sum of the added quantities is 1.
\<close>

theorem add_item_sequence_counterexample:
  "normalized_key ''coffee'' = ''coffee'' \<and>
   dict_get (items (add_items
      \<lparr>items = [(''coffee'', \<lparr>name = ''Coffee'', price = Finite (7 / 2), quantity = 2\<rparr>)],
       discount_percent = Finite 0, tax_percent = Finite 0\<rparr>
      [(''coffee'', Finite 4, 1)])) ''coffee''
     = Some \<lparr>name = ''Coffee'', price = Finite 4, quantity = 3\<rparr> \<and>
   added_quantities [(''coffee'', Finite 4, 1)] = 1"
  by (simp add: normalized_key_def strip_def isspace_def lower_coffee add_item_def dict_get_def
      added_quantities_def)

text \<open>
  Claim C10. When the cart holds an item under the normalized key of a name, \<open>add_item\<close>
  with that name changes only the quantity and the price of that entry: its display name,
  every other entry, the order of the keys and the two percentages stay as they were. So
  after a first insertion under an absent key, a later call whose name has the same key
  (other casing, other surrounding whitespace) leaves the display name the stripped name
  of the first call.
\<close>

theorem add_item_keeps_display_name:
  "(dict_get (items c) (normalized_key nm) = Some it \<longrightarrow>
      dict_get (items (add_item c nm pr qty)) (normalized_key nm) =
        Some (it\<lparr>quantity := quantity it + qty, price := pr\<rparr>) \<and>
      (\<forall>k. k \<noteq> normalized_key nm \<longrightarrow>
         dict_get (items (add_item c nm pr qty)) k = dict_get (items c) k) \<and>
      map fst (items (add_item c nm pr qty)) = map fst (items c) \<and>
      discount_percent (add_item c nm pr qty) = discount_percent c \<and>
      tax_percent (add_item c nm pr qty) = tax_percent c) \<and>
   (dict_get (items c) (normalized_key nm) = None \<and> normalized_key nm' = normalized_key nm \<longrightarrow>
      map_option name
        (dict_get (items (add_item (add_item c nm pr qty) nm' pr' qty')) (normalized_key nm))
        = Some (strip nm))"
proof -
  have a: "dict_get (items (add_item c nm pr qty)) (normalized_key nm) =
        Some (it\<lparr>quantity := quantity it + qty, price := pr\<rparr>) \<and>
      (\<forall>k. k \<noteq> normalized_key nm \<longrightarrow>
         dict_get (items (add_item c nm pr qty)) k = dict_get (items c) k) \<and>
      map fst (items (add_item c nm pr qty)) = map fst (items c) \<and>
      discount_percent (add_item c nm pr qty) = discount_percent c \<and>
      tax_percent (add_item c nm pr qty) = tax_percent c"
    if "dict_get (items c) (normalized_key nm) = Some it"
    using that
    by (simp add: add_item_present dict_get_set_same dict_get_set_other dict_keys_set_present)
  have b: "map_option name
        (dict_get (items (add_item (add_item c nm pr qty) nm' pr' qty')) (normalized_key nm))
        = Some (strip nm)"
    if "dict_get (items c) (normalized_key nm) = None" "normalized_key nm' = normalized_key nm"
  proof -
    let ?c1 = "add_item c nm pr qty"
    have "dict_get (items ?c1) (normalized_key nm') =
          Some \<lparr>name = strip nm, price = pr, quantity = qty\<rparr>"
      using that by (simp add: add_item_absent dict_get_set_same)
    then show ?thesis
      using that(2) by (simp add: add_item_present dict_get_set_same)
  qed
  from a b show ?thesis by blast
qed

theorem add_item_keeps_display_name_witness:
  "dict_get (items (add_item (add_item new_cart ''Coffee'' (Finite (7 / 2)) 2)
       '' coffee '' (Finite 4) 1)) ''coffee''
     = Some \<lparr>name = ''Coffee'', price = Finite 4, quantity = 3\<rparr> \<and>
   map_option name (dict_get (items (add_item (add_item new_cart ''Coffee'' (Finite (7 / 2)) 2)
       '' coffee '' (Finite 4) 1)) ''coffee'') = Some ''Coffee''"
proof -
  let ?c1 = "add_item new_cart ''Coffee'' (Finite (7 / 2)) 2"
  have c1: "dict_get (items ?c1) (normalized_key '' coffee '') =
      Some \<lparr>name = ''Coffee'', price = Finite (7 / 2), quantity = 2\<rparr>"
    by (simp add: add_item_def new_cart_def dict_get_def nk2 strip_Coffee lower_Coffee)
  have c0: "dict_get (items new_cart) (normalized_key ''Coffee'') = None"
    by (simp add: new_cart_def dict_get_def)
  show ?thesis
    using add_item_keeps_display_name [of ?c1 "'' coffee ''"
        "\<lparr>name = ''Coffee'', price = Finite (7 / 2), quantity = 2\<rparr>" "Finite 4" 1 "'' coffee ''" "Finite 4" 1]
      add_item_keeps_display_name [of new_cart "''Coffee''" undefined "Finite (7 / 2)" 2
         "'' coffee ''" "Finite 4" 1] c1 c0
    by (simp add: nk1 nk2 strip_Coffee)
qed

section \<open>Removing and updating\<close>

lemma remove_item_eq:
  "remove_item c nm =
     (dict_get (items c) (normalized_key nm) \<noteq> None,
      c\<lparr>items := snd (dict_pop (items c) (normalized_key nm))\<rparr>)"
  by (simp add: remove_item_def normalized_key_def dict_pop_def dict_get_def Let_def)

lemma update_quantity_absent:
  "dict_get (items c) (normalized_key nm) = None \<Longrightarrow> update_quantity c nm qty = (False, c)"
  by (simp add: update_quantity_def normalized_key_def)

lemma update_quantity_present:
  "dict_get (items c) (normalized_key nm) = Some it \<Longrightarrow>
   update_quantity c nm qty =
     (True, if qty \<le> 0 then c\<lparr>items := snd (dict_pop (items c) (normalized_key nm))\<rparr>
            else c\<lparr>items := dict_set (items c) (normalized_key nm) (it\<lparr>quantity := qty\<rparr>)\<rparr>)"
  by (simp add: update_quantity_def normalized_key_def)

text \<open>
  Claim C3. \<open>update_quantity\<close> returns False and the cart itself when the normalized
  key is absent; when the key is present and the quantity is at most 0 it returns True
  and removes the entry; when the key is present and the quantity is positive it returns
  True and stores the quantity in that entry, whose other fields, like every other entry,
  stay as they were.
\<close>

theorem update_quantity_cases:
  "(dict_get (items c) (normalized_key nm) = None \<longrightarrow> update_quantity c nm qty = (False, c)) \<and>
   (dict_get (items c) (normalized_key nm) \<noteq> None \<and> qty \<le> 0 \<longrightarrow>
      fst (update_quantity c nm qty) = True \<and>
      snd (update_quantity c nm qty) = c\<lparr>items := snd (dict_pop (items c) (normalized_key nm))\<rparr> \<and>
      (\<forall>k. dict_get (items (snd (update_quantity c nm qty))) k =
             (if k = normalized_key nm then None else dict_get (items c) k))) \<and>
   (\<forall>it. dict_get (items c) (normalized_key nm) = Some it \<and> 0 < qty \<longrightarrow>
      fst (update_quantity c nm qty) = True \<and>
      snd (update_quantity c nm qty) =
        c\<lparr>items := dict_set (items c) (normalized_key nm) (it\<lparr>quantity := qty\<rparr>)\<rparr> \<and>
      (\<forall>k. dict_get (items (snd (update_quantity c nm qty))) k =
             (if k = normalized_key nm then Some (it\<lparr>quantity := qty\<rparr>) else dict_get (items c) k)))"
  by (auto simp: update_quantity_absent update_quantity_present dict_get_pop
       dict_get_set_same dict_get_set_other)

theorem update_quantity_cases_witness:
  "update_quantity coffee_cart ''Tea'' 3 = (False, coffee_cart) \<and>
   update_quantity coffee_cart ''Coffee'' 0 = (True, coffee_cart\<lparr>items := []\<rparr>) \<and>
   update_quantity coffee_cart '' coffee '' 5 =
     (True, coffee_cart\<lparr>items :=
        [(''coffee'', \<lparr>name = ''Coffee'', price = Finite (7 / 2), quantity = 5\<rparr>)]\<rparr>)"
  using update_quantity_cases [of coffee_cart "''Tea''" 3]
    update_quantity_cases [of coffee_cart "''Coffee''" 0]
    update_quantity_cases [of coffee_cart "'' coffee ''" 5]
    coffee_cart_lookups
  by (simp add: nk_Tea nk1 nk2 prod_eq_iff) (simp add: coffee_cart_def dict_pop_def)

text \<open>
  Claim C6. \<open>remove_item\<close> returns False and the cart itself when the normalized key
  is absent; when it is present it returns True and removes exactly the entry of that
  key. The function is total: the absent case is a result, not an exception.
\<close>

theorem remove_item_cases:
  "(dict_get (items c) (normalized_key nm) = None \<longrightarrow> remove_item c nm = (False, c)) \<and>
   (dict_get (items c) (normalized_key nm) \<noteq> None \<longrightarrow>
      fst (remove_item c nm) = True \<and>
      snd (remove_item c nm) = c\<lparr>items := filter (\<lambda>kv. fst kv \<noteq> normalized_key nm) (items c)\<rparr> \<and>
      (\<forall>k. dict_get (items (snd (remove_item c nm))) k =
             (if k = normalized_key nm then None else dict_get (items c) k)))"
  using dict_get_pop [of "items c" "normalized_key nm"]
  by (auto simp: remove_item_eq dict_pop_absent) (simp_all add: dict_pop_def)

theorem remove_item_cases_witness:
  "remove_item coffee_cart ''Tea'' = (False, coffee_cart) \<and>
   remove_item coffee_cart '' coffee '' = (True, coffee_cart\<lparr>items := []\<rparr>)"
  using remove_item_cases [of coffee_cart "''Tea''"]
    remove_item_cases [of coffee_cart "'' coffee ''"]
    coffee_cart_lookups
  by (simp add: nk_Tea nk2 prod_eq_iff) (simp add: coffee_cart_def)

text \<open>
  Claim C8. \<open>clear\<close> yields the cart with no items, discount 0 and tax 0, and clearing
  twice yields the same state as clearing once.
\<close>

theorem clear_idempotent:
  "clear c = \<lparr>items = [], discount_percent = Finite 0, tax_percent = Finite 0\<rparr> \<and>
   clear (clear c) = clear c"
  by (simp add: clear_def)

section \<open>The invariant of the stored items\<close>

lemma values_dict_set:
  "list_all P (dict_values d) \<Longrightarrow> P v \<Longrightarrow> list_all P (dict_values (dict_set d k v))"
  by (induction d) (auto simp: dict_values_def)

lemma values_dict_pop:
  "list_all P (dict_values d) \<Longrightarrow> list_all P (dict_values (snd (dict_pop d k)))"
  by (induction d) (auto simp: dict_values_def dict_pop_def)

lemma values_dict_get:
  "list_all P (dict_values d) \<Longrightarrow> dict_get d k = Some v \<Longrightarrow> P v"
  by (induction d) (auto simp: dict_values_def dict_get_def split: if_splits)

lemma add_item_inv:
  assumes "cart_inv c" "float_ge0 pr" "0 < qty"
  shows "cart_inv (add_item c nm pr qty)"
proof (cases "dict_get (items c) (normalized_key nm)")
  case None
  have "item_ok \<lparr>name = strip nm, price = pr, quantity = qty\<rparr>"
    using assms by (simp add: item_ok_def)
  then show ?thesis
    using assms(1) None by (simp add: add_item_absent cart_inv_def values_dict_set)
next
  case (Some it)
  have "item_ok it"
    using assms(1) Some values_dict_get [of item_ok "items c"] by (simp add: cart_inv_def)
  then have "item_ok (it\<lparr>quantity := quantity it + qty, price := pr\<rparr>)"
    using assms by (simp add: item_ok_def)
  then show ?thesis
    using assms(1) Some by (simp add: add_item_present cart_inv_def values_dict_set)
qed

lemma remove_item_inv: "cart_inv c \<Longrightarrow> cart_inv (snd (remove_item c nm))"
  by (simp add: remove_item_eq cart_inv_def values_dict_pop)

lemma update_quantity_inv:
  assumes "cart_inv c"
  shows "cart_inv (snd (update_quantity c nm qty))"
proof (cases "dict_get (items c) (normalized_key nm)")
  case None
  then show ?thesis using assms by (simp add: update_quantity_absent)
next
  case (Some it)
  have "item_ok it"
    using assms Some values_dict_get [of item_ok "items c"] by (simp add: cart_inv_def)
  then have "0 < qty \<Longrightarrow> item_ok (it\<lparr>quantity := qty\<rparr>)"
    by (simp add: item_ok_def)
  then show ?thesis
    using assms Some
    by (simp add: update_quantity_present cart_inv_def values_dict_set values_dict_pop)
qed

lemma clear_inv: "cart_inv (clear c)"
  by (simp add: clear_def cart_inv_def dict_values_def)

lemma apply_op_inv: "cart_inv c \<Longrightarrow> caller_ok op \<Longrightarrow> cart_inv (apply_op c op)"
  by (cases op) (simp_all add: add_item_inv remove_item_inv update_quantity_inv clear_inv)

lemma run_ops_inv: "cart_inv c \<Longrightarrow> list_all caller_ok ops \<Longrightarrow> cart_inv (run_ops c ops)"
  by (induction ops arbitrary: c) (simp_all add: apply_op_inv)

lemma new_cart_inv: "cart_inv new_cart"
  by (simp add: new_cart_def cart_inv_def dict_values_def)

text \<open>
  Claim C4. The new cart satisfies the invariant that every stored item has a quantity
  above 0 and a price \<open>>= 0\<close>; \<open>add_item\<close> called under the caller's preconditions,
  \<open>remove_item\<close>, \<open>update_quantity\<close> and \<open>clear\<close> preserve it; so every state these
  operations reach from the new cart satisfies it, and none stores a quantity that is
  not positive.
\<close>

theorem reachable_cart_invariant:
  "cart_inv new_cart \<and>
   (cart_inv c \<and> list_all caller_ok ops \<longrightarrow> cart_inv (run_ops c ops)) \<and>
   (list_all caller_ok ops \<longrightarrow>
      (\<forall>it\<in>set (dict_values (items (run_ops new_cart ops))).
          0 < quantity it \<and> float_ge0 (price it)))"
proof -
  have "cart_inv (run_ops new_cart ops)" if "list_all caller_ok ops"
    using run_ops_inv [OF new_cart_inv that] .
  then have "list_all caller_ok ops \<longrightarrow>
      (\<forall>it\<in>set (dict_values (items (run_ops new_cart ops))).
          0 < quantity it \<and> float_ge0 (price it))"
    by (simp add: cart_inv_def list_all_iff item_ok_def)
  then show ?thesis using new_cart_inv run_ops_inv [of c ops] by blast
qed

lemma demo_ok: "list_all caller_ok demo_ops"
  by (simp add: demo_ops_def strip_Coffee strip_coffee_sp strip_Tea)

lemma demo_run: "items (run_ops new_cart demo_ops) =
    [(''coffee'', \<lparr>name = ''Coffee'', price = Finite 4, quantity = 5\<rparr>)]"
  by (simp add: demo_ops_def new_cart_def add_item_def update_quantity_def remove_item_def
      dict_get_def dict_pop_def strip_Coffee strip_coffee_sp strip_Tea lower_Coffee lower_coffee
      lower_Tea lower_Milk)

theorem reachable_cart_invariant_witness:
  "list_all caller_ok demo_ops \<and> cart_inv (run_ops new_cart demo_ops) \<and>
   items (run_ops new_cart demo_ops) =
     [(''coffee'', \<lparr>name = ''Coffee'', price = Finite 4, quantity = 5\<rparr>)]"
  using reachable_cart_invariant [of new_cart demo_ops] demo_ok demo_run by simp

section \<open>Rounding stays finite within the binary64 range\<close>

lemma bitlen_bounds:
  "0 < n \<Longrightarrow> 0 < bitlen n \<and> 2 ^ nat (bitlen n - 1) \<le> n \<and> n < 2 ^ nat (bitlen n)"
proof (induction n rule: bitlen.induct)
  case (1 n)
  show ?case
  proof (cases "n = 1")
    case True
    then show ?thesis by (simp add: bitlen.simps [of 1] bitlen.simps [of 0])
  next
    case False
    with "1.prems" have h: "0 < n div 2" by simp
    let ?b = "bitlen (n div 2)"
    from "1.IH" [OF _ h] "1.prems"
    have ih: "0 < ?b" "2 ^ nat (?b - 1) \<le> n div 2" "n div 2 < 2 ^ nat ?b" by auto
    have bn: "bitlen n = 1 + ?b" using "1.prems" by (subst bitlen.simps) simp
    have "(2::int) ^ nat ?b = 2 * 2 ^ nat (?b - 1)"
      using ih(1) by (metis Suc_nat_eq_nat_zadd1 add.commute diff_add_cancel diff_ge_0_iff_ge
          int_one_le_iff_zero_less power_Suc)
    then have lo: "2 ^ nat ?b \<le> n" using ih(2) by linarith
    have "(2::int) ^ nat (1 + ?b) = 2 * 2 ^ nat ?b"
      using ih(1) by (simp add: nat_add_distrib)
    then have hi: "n < 2 ^ nat (1 + ?b)" using ih(3) by linarith
    show ?thesis using ih(1) lo hi by (simp add: bn)
  qed
qed

lemma pow2_powi: "pow2 k = 2 powi k"
  by (simp add: pow2_def power_int_def field_simps)

lemma pow2_pos: "0 < pow2 k"
  by (simp add: pow2_powi)

lemma pow2_add: "pow2 (i + j) = pow2 i * pow2 j"
  by (simp add: pow2_powi power_int_add)

lemma pow2_diff: "pow2 (i - j) = pow2 i / pow2 j"
  by (simp add: pow2_powi power_int_diff)

lemma pow2_nat: "0 \<le> k \<Longrightarrow> pow2 k = 2 ^ nat k"
  by (simp add: pow2_def)

lemma pow2_mono: "i \<le> j \<Longrightarrow> pow2 i \<le> pow2 j"
  by (simp add: pow2_powi power_int_increasing)

lemma ilog2_lower:
  assumes "0 < a"
  shows "pow2 (ilog2 a) \<le> a"
proof -
  obtain p q where pq: "quotient_of a = (p, q)" by (cases "quotient_of a") auto
  have q: "0 < q" using pq quotient_of_denom_pos by blast
  have a: "a = of_int p / of_int q" using pq quotient_of_div by blast
  have p: "0 < p" using assms q a by (simp add: zero_less_divide_iff)
  let ?k = "bitlen p - bitlen q"
  have il: "ilog2 a = (if pow2 ?k \<le> a then ?k else ?k - 1)"
    by (simp add: ilog2_def pq Let_def)
  have "pow2 (?k - 1) \<le> a"
  proof -
    have bp: "(2::int) ^ nat (bitlen p - 1) \<le> p" using bitlen_bounds [OF p] by simp
    have bq: "q < 2 ^ nat (bitlen q)" "0 < bitlen q" using bitlen_bounds [OF q] by simp_all
    have "pow2 (?k - 1) = pow2 (bitlen p - 1) / pow2 (bitlen q)"
      using pow2_diff [of "bitlen p - 1" "bitlen q"] by (simp add: algebra_simps)
    also have "\<dots> = 2 ^ nat (bitlen p - 1) / 2 ^ nat (bitlen q)"
      using bitlen_bounds [OF p] bq(2) by (simp add: pow2_nat)
    also have "\<dots> \<le> of_int p / of_int q"
    proof (rule frac_le)
      show "(0::rat) \<le> of_int p" using p by simp
      have "(of_int (2 ^ nat (bitlen p - 1)) :: rat) \<le> of_int p" using bp by (simp only: of_int_le_iff)
      then show "(2::rat) ^ nat (bitlen p - 1) \<le> of_int p" by simp
      show "(0::rat) < of_int q" using q by simp
      have "(of_int q :: rat) \<le> of_int (2 ^ nat (bitlen q))" using bq(1) by (simp only: of_int_le_iff)
      then show "(of_int q :: rat) \<le> 2 ^ nat (bitlen q)" by simp
    qed
    finally show ?thesis by (simp add: a)
  qed
  then show ?thesis by (simp add: il)
qed

lemma round_half_even_le: "of_int (round_half_even y) \<le> y + 1 / 2"
proof -
  have "of_int \<lfloor>y\<rfloor> \<le> y" by simp
  then show ?thesis
    unfolding round_half_even_def Let_def by (auto; linarith)
qed

lemma round64_not_nan: "\<not> is_nan (round64 x)"
  by (simp add: round64_def Let_def)

lemma pow2_1024_ge: "2 \<le> pow2 1024"
proof -
  have "pow2 1 \<le> pow2 1024" by (rule pow2_mono) simp
  then show ?thesis by (simp add: pow2_def)
qed

lemma round64_not_inf:
  assumes "2 * \<bar>x\<bar> + 1 < pow2 1024"
  shows "\<not> is_inf (round64 x)"
proof -
  define a where "a = \<bar>x\<bar>"
  define e where "e = max (ilog2 a) (- 1022)"
  define q where "q = pow2 (e - 52)"
  define m where "m = of_int (round_half_even (a / q)) * q"
  have q0: "0 < q" by (simp add: q_def pow2_pos)
  have "pow2 e \<le> a + 1"
  proof (cases "ilog2 a \<le> - 1022")
    case True
    then have "e = - 1022" by (simp add: e_def)
    then have "pow2 e \<le> pow2 0" by (simp add: pow2_mono)
    then show ?thesis by (simp add: pow2_def a_def)
  next
    case False
    then have e: "e = ilog2 a" by (simp add: e_def)
    show ?thesis
    proof (cases "0 < a")
      case True
      then show ?thesis using ilog2_lower [OF True] by (simp add: e)
    next
      case False
      then have "a = 0" by (simp add: a_def)
      then have "ilog2 a \<le> 0"
        by (simp add: ilog2_def Let_def bitlen.simps [of 0] bitlen.simps [of 1] pow2_def)
      then have "pow2 e \<le> pow2 0" by (simp add: e pow2_mono)
      then show ?thesis by (simp add: pow2_def a_def)
    qed
  qed
  moreover have "q \<le> pow2 e" by (simp add: q_def pow2_mono)
  ultimately have qa: "q \<le> a + 1" by simp
  have "of_int (round_half_even (a / q)) \<le> a / q + 1 / 2" by (rule round_half_even_le)
  then have "m \<le> (a / q + 1 / 2) * q"
    unfolding m_def using q0 by (simp add: mult_right_mono)
  also have "\<dots> = a + q / 2" using q0 by (simp add: field_simps)
  also have "\<dots> \<le> 2 * a + 1" using qa by (simp add: a_def)
  finally have "m < pow2 1024" using assms by (simp add: a_def)
  then show ?thesis
    unfolding round64_def Let_def a_def [symmetric] e_def [symmetric] q_def [symmetric]
      m_def [symmetric]
    by simp
qed

lemma finite_float_bound:
  assumes "round64 r = Finite r"
  shows "\<bar>r\<bar> < pow2 1024"
proof -
  define m where "m = of_int (round_half_even (\<bar>r\<bar> / pow2 (max (ilog2 \<bar>r\<bar>) (- 1022) - 52))) *
                        pow2 (max (ilog2 \<bar>r\<bar>) (- 1022) - 52)"
  have "round64 r = (if pow2 1024 \<le> m then (if r < 0 then NegInf else PosInf)
     else if m = 0 then (if r < 0 then NegZero else Finite 0)
     else Finite (if r < 0 then - m else m))"
    by (simp add: round64_def Let_def m_def)
  with assms have "\<not> pow2 1024 \<le> m" "r = 0 \<or> r = (if r < 0 then - m else m)"
    by (auto split: if_splits)
  then show ?thesis using pow2_pos [of 1024] by (auto split: if_splits)
qed

lemma ilog2_upper:
  assumes "0 < a"
  shows "a < pow2 (ilog2 a + 1)"
proof -
  obtain p q where pq: "quotient_of a = (p, q)" by (cases "quotient_of a") auto
  have q: "0 < q" using pq quotient_of_denom_pos by blast
  have a: "a = of_int p / of_int q" using pq quotient_of_div by blast
  have p: "0 < p" using assms q a by (simp add: zero_less_divide_iff)
  let ?k = "bitlen p - bitlen q"
  have il: "ilog2 a = (if pow2 ?k \<le> a then ?k else ?k - 1)"
    by (simp add: ilog2_def pq Let_def)
  have "a < pow2 (?k + 1)"
  proof -
    have bp: "p < 2 ^ nat (bitlen p)" using bitlen_bounds [OF p] by simp
    have bq: "(2::int) ^ nat (bitlen q - 1) \<le> q" "0 < bitlen q" using bitlen_bounds [OF q] by simp_all
    have "of_int p / of_int q < (2::rat) ^ nat (bitlen p) / 2 ^ nat (bitlen q - 1)"
    proof (rule frac_less)
      show "(0::rat) \<le> of_int p" using p by simp
      have "(of_int p :: rat) < of_int (2 ^ nat (bitlen p))" using bp by (simp only: of_int_less_iff)
      then show "(of_int p :: rat) < 2 ^ nat (bitlen p)" by simp
      show "(0::rat) < 2 ^ nat (bitlen q - 1)" by simp
      have "(of_int (2 ^ nat (bitlen q - 1)) :: rat) \<le> of_int q" using bq(1) by (simp only: of_int_le_iff)
      then show "(2::rat) ^ nat (bitlen q - 1) \<le> of_int q" by simp
    qed
    also have "\<dots> = pow2 (bitlen p) / pow2 (bitlen q - 1)"
      using bitlen_bounds [OF p] bq(2) by (simp add: pow2_nat)
    also have "\<dots> = pow2 (?k + 1)"
      using pow2_diff [of "bitlen p" "bitlen q - 1"] by (simp add: algebra_simps)
    finally show ?thesis by (simp add: a)
  qed
  then show ?thesis by (auto simp: il)
qed

lemma ilog2_unique:
  assumes "pow2 e \<le> a" "a < pow2 (e + 1)"
  shows "ilog2 a = e"
proof -
  have a: "0 < a" using assms(1) pow2_pos [of e] by simp
  have "\<not> ilog2 a < e"
  proof
    assume "ilog2 a < e"
    then have "pow2 (ilog2 a + 1) \<le> pow2 e" by (simp add: pow2_mono)
    then show False using ilog2_upper [OF a] assms(1) by simp
  qed
  moreover have "\<not> e < ilog2 a"
  proof
    assume "e < ilog2 a"
    then have "pow2 (e + 1) \<le> pow2 (ilog2 a)" by (simp add: pow2_mono)
    then show False using ilog2_lower [OF a] assms(2) by simp
  qed
  ultimately show ?thesis by simp
qed

lemma round_half_even_near:
  assumes "\<bar>y - of_int n\<bar> < 1 / 2"
  shows "round_half_even y = n"
proof -
  have f: "of_int \<lfloor>y\<rfloor> \<le> y" "y < of_int \<lfloor>y\<rfloor> + 1" by linarith+
  have n: "y - 1 / 2 < of_int n" "of_int n < y + 1 / 2" using assms by linarith+
  have "\<lfloor>y\<rfloor> = n \<or> \<lfloor>y\<rfloor> = n - 1"
  proof -
    have "of_int \<lfloor>y\<rfloor> < (of_int n :: rat) + 1" using f(1) n(1) by linarith
    then have "of_int \<lfloor>y\<rfloor> < (of_int (n + 1) :: rat)" by simp
    then have 1: "\<lfloor>y\<rfloor> < n + 1" by (simp only: of_int_less_iff)
    have "(of_int n :: rat) - 2 < of_int \<lfloor>y\<rfloor>" using f(2) n(2) by linarith
    then have "(of_int (n - 2) :: rat) < of_int \<lfloor>y\<rfloor>" by simp
    then have "n - 2 < \<lfloor>y\<rfloor>" by (simp only: of_int_less_iff)
    with 1 show ?thesis by linarith
  qed
  then show ?thesis
  proof
    assume h: "\<lfloor>y\<rfloor> = n"
    have "y - of_int \<lfloor>y\<rfloor> < 1 / 2" unfolding h using n(1) by linarith
    then show ?thesis by (simp add: round_half_even_def Let_def h)
  next
    assume h: "\<lfloor>y\<rfloor> = n - 1"
    have "1 / 2 < y - of_int \<lfloor>y\<rfloor>" unfolding h using n(2) by simp
    then show ?thesis by (simp add: round_half_even_def Let_def h)
  qed
qed

lemma round64_normal:
  assumes "pow2 e \<le> \<bar>x\<bar>" "\<bar>x\<bar> < pow2 (e + 1)" "- 1022 \<le> e"
    and "\<bar>\<bar>x\<bar> / pow2 (e - 52) - of_int n\<bar> < 1 / 2"
    and "of_int n * pow2 (e - 52) < pow2 1024"
  shows "round64 x = Finite (if x < 0 then - (of_int n * pow2 (e - 52))
                             else of_int n * pow2 (e - 52))"
proof -
  have il: "ilog2 \<bar>x\<bar> = e" using assms(1,2) by (rule ilog2_unique)
  have mx: "max e (- 1022) = e" using assms(3) by simp
  have r: "round_half_even (\<bar>x\<bar> / pow2 (e - 52)) = n"
    using assms(4) by (rule round_half_even_near)
  have "pow2 52 \<le> \<bar>x\<bar> / pow2 (e - 52)"
  proof -
    have "pow2 52 = pow2 e / pow2 (e - 52)" using pow2_diff [of e "e - 52"] by simp
    also have "\<dots> \<le> \<bar>x\<bar> / pow2 (e - 52)"
      using assms(1) pow2_pos [of "e - 52"] by (simp add: divide_right_mono)
    finally show ?thesis .
  qed
  moreover have "(1::rat) \<le> pow2 52" using pow2_mono [of 0 52] by (simp add: pow2_def)
  ultimately have "1 / 2 < (of_int n :: rat)" using assms(4) by linarith
  then have "(0::rat) < of_int n" by linarith
  then have nz: "of_int n * pow2 (e - 52) \<noteq> 0" using pow2_pos [of "e - 52"] by simp
  show ?thesis
    unfolding round64_def Let_def il mx r using assms(5) nz by simp
qed

text \<open>From \<open>2 ^ 1024\<close> on rounding overflows, and the conversion of an integer raises.\<close>

lemma round_half_even_ge_floor: "\<lfloor>y\<rfloor> \<le> round_half_even y"
  by (simp add: round_half_even_def Let_def)

lemma round64_overflow:
  assumes "pow2 1024 \<le> \<bar>x\<bar>"
  shows "is_inf (round64 x)"
proof -
  define a where "a = \<bar>x\<bar>"
  have a: "0 < a" using assms pow2_pos [of 1024] by (simp add: a_def)
  define e where "e = ilog2 a"
  have "\<not> e + 1 \<le> 1024"
  proof
    assume "e + 1 \<le> 1024"
    then have "pow2 (e + 1) \<le> pow2 1024" by (rule pow2_mono)
    then show False using ilog2_upper [OF a] assms by (simp add: e_def a_def)
  qed
  then have e: "1024 \<le> e" by simp
  then have mx: "max e (- 1022) = e" by simp
  define q where "q = pow2 (e - 52)"
  have q0: "0 < q" by (simp add: q_def pow2_pos)
  have "pow2 52 = pow2 e / q" using pow2_diff [of e "e - 52"] by (simp add: q_def)
  also have "\<dots> \<le> a / q" using ilog2_lower [OF a] q0 by (simp add: e_def divide_right_mono)
  finally have "of_int (2 ^ 52) \<le> a / q" by (simp add: pow2_def)
  then have "2 ^ 52 \<le> \<lfloor>a / q\<rfloor>" by (simp only: le_floor_iff)
  then have "2 ^ 52 \<le> round_half_even (a / q)"
    using round_half_even_ge_floor [of "a / q"] by linarith
  then have "(of_int (2 ^ 52) :: rat) \<le> of_int (round_half_even (a / q))"
    by (simp only: of_int_le_iff)
  then have "pow2 52 * q \<le> of_int (round_half_even (a / q)) * q"
    using q0 by (simp add: pow2_def)
  moreover have "pow2 52 * q = pow2 e" using pow2_add [of 52 "e - 52"] by (simp add: q_def)
  moreover have "pow2 1024 \<le> pow2 e" using e by (rule pow2_mono)
  ultimately have "pow2 1024 \<le> of_int (round_half_even (a / q)) * q" by simp
  then show ?thesis
    unfolding round64_def Let_def a_def [symmetric] e_def [symmetric] mx q_def [symmetric]
    by simp
qed

lemma int_to_float_huge: "int_to_float (2 ^ 1024) = Inl OverflowError"
proof -
  have "is_inf (round64 (of_int (2 ^ 1024)))"
    by (rule round64_overflow) (simp add: pow2_def)
  then show ?thesis by (simp add: int_to_float_def Let_def)
qed

text \<open>The numbers of the examples are binary64 values.\<close>

lemma zero_float: "int_to_float 0 = Inr (Finite 0)"
  by (simp add: int_to_float_def)

lemma hundred: "int_to_float 100 = Inr (Finite 100)"
  using round64_normal [of 6 100 7036874417766400]
  by (simp add: int_to_float_def pow2_def)

lemma one: "int_to_float 1 = Inr (Finite 1)"
  using round64_normal [of 0 1 4503599627370496]
  by (simp add: int_to_float_def pow2_def)

lemma two: "int_to_float 2 = Inr (Finite 2)"
  using round64_normal [of 1 2 4503599627370496]
  by (simp add: int_to_float_def pow2_def)

lemma ten_finite: "finite_float (Finite 10)"
  using round64_normal [of 3 10 5629499534213120]
  by (simp add: finite_float_def pow2_def)

lemma five_finite: "finite_float (Finite 5)"
  using round64_normal [of 2 5 5629499534213120]
  by (simp add: finite_float_def pow2_def)

lemma percent_rate_finite:
  assumes "finite_float d"
  shows "\<exists>z. py_truediv (PyFloat d) (PyInt 100) = Inr (PyFloat z) \<and> \<not> is_nan z \<and> \<not> is_inf z"
proof (cases d)
  case (Finite r)
  show ?thesis
  proof (cases "r = 0")
    case True
    then show ?thesis by (simp add: Finite hundred bind_err_def fdiv_def signed_zero_def)
  next
    case False
    with assms Finite have "round64 r = Finite r" by (simp add: finite_float_def)
    then have "\<bar>r\<bar> < pow2 1024" by (rule finite_float_bound)
    then have "2 * \<bar>r / 100\<bar> + 1 < pow2 1024" using pow2_1024_ge by simp
    then have "\<not> is_inf (round64 (r / 100))" by (rule round64_not_inf)
    then show ?thesis
      using False by (simp add: Finite hundred bind_err_def fdiv_def round64_not_nan)
  qed
next
  case NegZero
  then show ?thesis by (simp add: hundred bind_err_def fdiv_def signed_zero_def)
qed (use assms in \<open>simp_all add: finite_float_def\<close>)

section \<open>The amounts of a cart\<close>

lemma round64_100: "round64 100 = Finite 100"
  using round64_normal [of 6 100 7036874417766400] by (simp add: pow2_def)

lemma rate_10: "py_truediv (PyFloat (Finite 10)) (PyInt 100) =
    Inr (PyFloat (Finite (3602879701896397 / 36028797018963968)))"
  using round64_normal [of "- 4" "1 / 10" 7205759403792794] hundred
  by (simp add: bind_err_def fdiv_def pow2_def)

lemma rate_5: "py_truediv (PyFloat (Finite 5)) (PyInt 100) =
    Inr (PyFloat (Finite (3602879701896397 / 72057594037927936)))"
  using round64_normal [of "- 5" "1 / 20" 7205759403792794] hundred
  by (simp add: bind_err_def fdiv_def pow2_def)

lemma discount_100: "py_mul (PyFloat (Finite 100))
    (PyFloat (Finite (3602879701896397 / 36028797018963968))) = Inr (PyFloat (Finite 10))"
  using round64_normal [of 3 "90071992547409925 / 9007199254740992" 5629499534213120]
  by (simp add: bind_err_def fmul_def pow2_def)

lemma base_90: "py_sub (PyFloat (Finite 100)) (PyFloat (Finite 10)) = Inr (PyFloat (Finite 90))"
  using round64_normal [of 6 90 6333186975989760]
  by (simp add: bind_err_def fsub_def fadd_def pow2_def)

lemma tax_90: "py_mul (PyFloat (Finite 90))
    (PyFloat (Finite (3602879701896397 / 72057594037927936))) = Inr (PyFloat (Finite (9 / 2)))"
  using round64_normal [of 2 "162129586585337865 / 36028797018963968" 5066549580791808]
  by (simp add: bind_err_def fmul_def pow2_def)

lemma due_90: "py_add (PyFloat (Finite 90)) (PyFloat (Finite (9 / 2))) =
    Inr (PyFloat (Finite (189 / 2)))"
  using round64_normal [of 6 "189 / 2" 6649846324789248]
  by (simp add: bind_err_def fadd_def pow2_def)

lemma fifty_subtotal: "subtotal fifty_cart = Inr (PyFloat (Finite 100))"
  by (simp add: subtotal_def fifty_cart_def dict_values_def total_def py_sum_def bind_err_def
      two zero_float fmul_def fadd_def round64_100)

lemmas py_arith_simps = py_truediv.simps py_mul.simps py_sub.simps py_add.simps











lemma huge_total:
  "total \<lparr>name = ''x'', price = Finite 1, quantity = 2 ^ 1024\<rparr> = Inl OverflowError"
  using int_to_float_huge by (simp add: total_def bind_err_Inr bind_err_Inl)






section \<open>The amounts of an empty cart\<close>

lemma fmul_zero: "is_zero x \<Longrightarrow> \<not> is_nan z \<Longrightarrow> \<not> is_inf z \<Longrightarrow> is_zero (fmul x z)"
  by (cases x; cases z) (simp_all add: fmul_def signed_zero_def)

lemma fneg_zero: "is_zero x \<Longrightarrow> is_zero (fneg x)"
  by (cases x) simp_all

lemma fadd_zero: "is_zero x \<Longrightarrow> is_zero y \<Longrightarrow> is_zero (fadd x y)"
  by (cases x; cases y) (simp_all add: fadd_def signed_zero_def)

lemma fsub_zero: "is_zero x \<Longrightarrow> is_zero y \<Longrightarrow> is_zero (fsub x y)"
  by (simp add: fsub_def fadd_zero fneg_zero)

lemma subtotal_empty: "items c = [] \<Longrightarrow> subtotal c = Inr (PyInt 0)"
  by (simp add: subtotal_def dict_values_def py_sum_def)

lemma int_zero_mul:
  "\<not> is_nan z \<Longrightarrow> \<not> is_inf z \<Longrightarrow>
   \<exists>r. py_mul (PyInt 0) (PyFloat z) = Inr (PyFloat r) \<and> is_zero r"
  by (simp add: int_to_float_def bind_err_def fmul_zero)

lemma float_zero_mul:
  "is_zero x \<Longrightarrow> \<not> is_nan z \<Longrightarrow> \<not> is_inf z \<Longrightarrow>
   \<exists>r. py_mul (PyFloat x) (PyFloat z) = Inr (PyFloat r) \<and> is_zero r"
  by (simp add: bind_err_def fmul_zero)

lemma int_zero_sub:
  "is_zero y \<Longrightarrow> \<exists>r. py_sub (PyInt 0) (PyFloat y) = Inr (PyFloat r) \<and> is_zero r"
  by (simp add: int_to_float_def bind_err_def fsub_zero)

lemma float_zero_add:
  "is_zero x \<Longrightarrow> is_zero y \<Longrightarrow> \<exists>r. py_add (PyFloat x) (PyFloat y) = Inr (PyFloat r) \<and> is_zero r"
  by (simp add: bind_err_def fadd_zero)

text \<open>
  Claim C9, amended. For every cart with no items whose discount and tax percentages
  are finite floats, \<open>subtotal\<close> returns the integer 0, and \<open>discount_amount\<close>,
  \<open>tax_amount\<close> and \<open>total_due\<close> return a zero.
\<close>

theorem empty_cart_amounts:
  assumes "items c = []" "finite_float (discount_percent c)" "finite_float (tax_percent c)"
  shows "subtotal c = Inr (PyInt 0) \<and>
         (\<exists>d. discount_amount c = Inr d \<and> py_is_zero d) \<and>
         (\<exists>t. tax_amount c = Inr t \<and> py_is_zero t) \<and>
         (\<exists>u. total_due c = Inr u \<and> py_is_zero u)"
proof -
  have s: "subtotal c = Inr (PyInt 0)" using assms(1) by (rule subtotal_empty)
  obtain dr where dr: "py_truediv (PyFloat (discount_percent c)) (PyInt 100) = Inr (PyFloat dr)"
    "\<not> is_nan dr" "\<not> is_inf dr"
    using percent_rate_finite [OF assms(2)] by blast
  obtain tr where tr: "py_truediv (PyFloat (tax_percent c)) (PyInt 100) = Inr (PyFloat tr)"
    "\<not> is_nan tr" "\<not> is_inf tr"
    using percent_rate_finite [OF assms(3)] by blast
  obtain d where d: "py_mul (PyInt 0) (PyFloat dr) = Inr (PyFloat d)" "is_zero d"
    using int_zero_mul [OF dr(2,3)] by blast
  have da: "discount_amount c = Inr (PyFloat d)"
    by (simp add: discount_amount_def s dr(1) d(1) bind_err_def
        del: py_truediv.simps py_mul.simps py_sub.simps py_add.simps)
  obtain b where b: "py_sub (PyInt 0) (PyFloat d) = Inr (PyFloat b)" "is_zero b"
    using int_zero_sub [OF d(2)] by blast
  obtain t where t: "py_mul (PyFloat b) (PyFloat tr) = Inr (PyFloat t)" "is_zero t"
    using float_zero_mul [OF b(2) tr(2,3)] by blast
  have ta: "tax_amount c = Inr (PyFloat t)"
    by (simp add: tax_amount_def s da b(1) tr(1) t(1) bind_err_def
        del: py_truediv.simps py_mul.simps py_sub.simps py_add.simps)
  obtain u where u: "py_add (PyFloat b) (PyFloat t) = Inr (PyFloat u)" "is_zero u"
    using float_zero_add [OF b(2) t(2)] by blast
  have td: "total_due c = Inr (PyFloat u)"
    by (simp add: total_due_def s da b(1) ta u(1) bind_err_def
        del: py_truediv.simps py_mul.simps py_sub.simps py_add.simps)
  show ?thesis using s da ta td d(2) t(2) u(2) by simp
qed

theorem empty_cart_amounts_witness:
  "subtotal \<lparr>items = [], discount_percent = Finite 10, tax_percent = Finite 5\<rparr> = Inr (PyInt 0) \<and>
   (\<exists>d. discount_amount \<lparr>items = [], discount_percent = Finite 10, tax_percent = Finite 5\<rparr> = Inr d
        \<and> py_is_zero d) \<and>
   (\<exists>t. tax_amount \<lparr>items = [], discount_percent = Finite 10, tax_percent = Finite 5\<rparr> = Inr t
        \<and> py_is_zero t) \<and>
   (\<exists>u. total_due \<lparr>items = [], discount_percent = Finite 10, tax_percent = Finite 5\<rparr> = Inr u
        \<and> py_is_zero u)"
  using empty_cart_amounts [of "\<lparr>items = [], discount_percent = Finite 10, tax_percent = Finite 5\<rparr>"]
    ten_finite five_finite
  by simp

text \<open>
  Claim C9 as stated, for any percentages, fails at an infinite discount, which
  \<open>prompt_float\<close> accepts (the string \<open>inf\<close> parses as a float and is not below 0):
  the rate is infinite, and 0 times infinity is a NaN, which is not equal to 0.
\<close>

theorem empty_cart_amounts_counterexample:
  "items \<lparr>items = [], discount_percent = PosInf, tax_percent = Finite 0\<rparr> = [] \<and>
   discount_amount \<lparr>items = [], discount_percent = PosInf, tax_percent = Finite 0\<rparr>
     = Inr (PyFloat NaN) \<and>
   \<not> py_is_zero (PyFloat NaN)"
  by (simp add: discount_amount_def subtotal_empty hundred zero_float bind_err_def fdiv_def
      signed_inf_def fmul_def)

section \<open>Checkout\<close>

declare bind_err_Inr [simp] bind_err_Inl [simp]

lemma strip_7: "strip '' 7 '' = ''7''"
  by (simp add: strip_def isspace_def)

text \<open>
  Claim C5. On a cart with no items the checkout command (a pass of the loop whose
  input line is 7, surrounding whitespace apart) writes no file, prints the warning that
  the cart is empty after the menu and the prompt, and leaves the cart, with its items
  and both percentages, as it was.
\<close>

theorem checkout_empty_cart:
  "items (cart w) = [] \<and> stdin w = l # rest \<and> strip l = ''7'' \<longrightarrow>
   run_cashier_pass pf pint now w =
     Inr (True, w\<lparr>stdin := rest,
                  stdout := stdout w @ menu_lines @ [Prompt ''Your choice: '', Warn ''Cart is empty.'']\<rparr>) \<and>
   (\<forall>w'. run_cashier_pass pf pint now w = Inr (True, w') \<longrightarrow>
      files w' = files w \<and> cart w' = cart w)"
  by (auto simp: run_cashier_pass_def print_menu_def print_def input_def)

theorem checkout_empty_cart_witness:
  "run_cashier_pass reject_float reject_int ''20240101_120000'' empty_world =
     Inr (True, empty_world\<lparr>stdin := [''0''],
                  stdout := menu_lines @ [Prompt ''Your choice: '', Warn ''Cart is empty.'']\<rparr>)"
  using checkout_empty_cart [of empty_world "'' 7 ''" "[''0'']" reject_float reject_int
      "''20240101_120000''"]
  by (simp add: empty_world_def strip_7)

text \<open>
  The formats \<open>.1f\<close> and \<open>.2f\<close> write a float that is neither an infinity nor a NaN
  in fixed point: an optional minus sign, at least one digit, the point, and exactly that
  many digits after it.
\<close>

lemma digits_of_length: "0 < p \<Longrightarrow> n < 10 ^ p \<Longrightarrow> length (digits_of n) \<le> p"
proof (induction n arbitrary: p rule: digits_of.induct)
  case (1 n)
  show ?case
  proof (cases "n < 10")
    case True
    then show ?thesis using "1.prems"(1) by (subst digits_of.simps) simp
  next
    case False
    obtain k where p: "p = Suc k" using "1.prems"(1) by (cases p) auto
    have k: "0 < k"
    proof (rule ccontr)
      assume "\<not> 0 < k"
      then show False using False "1.prems"(2) by (simp add: p)
    qed
    have "n < 10 * 10 ^ k" using "1.prems"(2) by (simp add: p)
    then have "n div 10 < 10 ^ k" by linarith
    from "1.IH" [OF False k this] have "length (digits_of (n div 10)) \<le> k" .
    then show ?thesis using False by (subst digits_of.simps) (simp add: p)
  qed
qed

lemma digit_char_digit: "0 \<le> d \<Longrightarrow> d < 10 \<Longrightarrow> is_digit (digit_char d)"
proof -
  assume "0 \<le> d" "d < 10"
  then have "nat d < length ''0123456789''" by simp
  then show ?thesis unfolding is_digit_def digit_char_def by (rule nth_mem)
qed

lemma digits_of_digits: "0 \<le> n \<Longrightarrow> digits_of n \<noteq> [] \<and> list_all is_digit (digits_of n)"
proof (induction n rule: digits_of.induct)
  case (1 n)
  show ?case
  proof (cases "n < 10")
    case True
    then show ?thesis using "1.prems" by (subst (1 2) digits_of.simps) (simp add: digit_char_digit)
  next
    case False
    then have "0 \<le> n div 10" by simp
    from "1.IH" [OF False this] have "list_all is_digit (digits_of (n div 10))" by simp
    moreover have "is_digit (digit_char (n mod 10))" by (rule digit_char_digit) simp_all
    ultimately show ?thesis using False by (subst (1 2) digits_of.simps) simp
  qed
qed

lemma round_half_even_nonneg: "0 \<le> y \<Longrightarrow> 0 \<le> round_half_even y"
  using round_half_even_ge_floor [of y] by (simp add: order_trans [of 0 "\<lfloor>y\<rfloor>"])

lemma fixed_point_plain:
  assumes "ip \<noteq> []" "list_all is_digit ip" "list_all is_digit fp" "length fp = p"
  shows "fixed_point p (ip @ CHR ''.'' # fp)"
proof -
  obtain c cs where ip: "ip = c # cs" using assms(1) by (cases ip) auto
  have "is_digit c" using assms(2) by (simp add: ip)
  then have "c \<noteq> CHR ''-''" by (auto simp: is_digit_def)
  then have "take 1 (ip @ CHR ''.'' # fp) \<noteq> ''-''" by (simp add: ip)
  then show ?thesis
    using assms by (simp add: fixed_point_def Let_def)
qed

lemma fixed_point_minus:
  assumes "ip \<noteq> []" "list_all is_digit ip" "list_all is_digit fp" "length fp = p"
  shows "fixed_point p (CHR ''-'' # ip @ CHR ''.'' # fp)"
  using assms by (simp add: fixed_point_def Let_def)

lemma fixed_digits_shape:
  assumes "0 < p" "0 \<le> n"
  shows "\<exists>ip fp. fixed_digits False p n = ip @ CHR ''.'' # fp \<and> ip \<noteq> [] \<and>
           list_all is_digit ip \<and> list_all is_digit fp \<and> length fp = p"
proof -
  let ?d = "digits_of (n mod 10 ^ p)"
  let ?fp = "replicate (p - length ?d) CHR ''0'' @ ?d"
  have "n mod 10 ^ p < 10 ^ p" by simp
  then have "length ?d \<le> p" using assms(1) by (rule digits_of_length [rotated])
  then have l: "length ?fp = p" by simp
  have "0 \<le> n mod 10 ^ p" by simp
  then have "list_all is_digit ?d" using digits_of_digits by blast
  moreover have "is_digit CHR ''0''" by (simp add: is_digit_def)
  ultimately have d: "list_all is_digit ?fp" by (auto simp: list_all_iff)
  have "0 \<le> n div 10 ^ p" using assms(2) by (simp add: pos_imp_zdiv_nonneg_iff)
  then have i: "digits_of (n div 10 ^ p) \<noteq> []" "list_all is_digit (digits_of (n div 10 ^ p))"
    using digits_of_digits by blast+
  have "fixed_digits False p n = digits_of (n div 10 ^ p) @ CHR ''.'' # ?fp"
    using assms(1) by (simp add: fixed_digits_def Let_def)
  with l d i show ?thesis by blast
qed

lemma format_float_fixed_point:
  assumes "0 < p" "ordinary x"
  shows "fixed_point p (format_float False p x)"
proof (cases x)
  case (Finite r)
  have "0 \<le> round_half_even (\<bar>r\<bar> * 10 ^ p)" by (rule round_half_even_nonneg) simp
  from fixed_digits_shape [OF assms(1) this]
  obtain ip fp where f: "fixed_digits False p (round_half_even (\<bar>r\<bar> * 10 ^ p)) = ip @ CHR ''.'' # fp"
    "ip \<noteq> []" "list_all is_digit ip" "list_all is_digit fp" "length fp = p" by blast
  show ?thesis
  proof (cases "r < 0")
    case True
    have "format_float False p x = CHR ''-'' # ip @ CHR ''.'' # fp"
      unfolding Finite format_float.simps f(1) using True by simp
    then show ?thesis using fixed_point_minus [OF f(2-5)] by simp
  next
    case False
    have "format_float False p x = ip @ CHR ''.'' # fp"
      unfolding Finite format_float.simps f(1) using False by simp
    then show ?thesis using fixed_point_plain [OF f(2-5)] by simp
  qed
next
  case NegZero
  from fixed_digits_shape [OF assms(1), of 0]
  obtain ip fp where f: "fixed_digits False p 0 = ip @ CHR ''.'' # fp"
    "ip \<noteq> []" "list_all is_digit ip" "list_all is_digit fp" "length fp = p" by auto
  have "format_float False p x = CHR ''-'' # ip @ CHR ''.'' # fp"
    unfolding NegZero format_float.simps f(1) by simp
  then show ?thesis using fixed_point_minus [OF f(2-5)] by simp
qed (use assms in \<open>simp_all add: ordinary_def\<close>)

lemma not_fixed_point_inf: "\<not> fixed_point 2 ''inf''"
  by (simp add: fixed_point_def Let_def)

text \<open>A cart whose quantities fit has float amounts, and printing it does not raise.\<close>

lemma quantity_fits_float: "quantity_fits it \<Longrightarrow> \<exists>x. int_to_float (quantity it) = Inr x"
  by (simp add: quantity_fits_def split: sum.splits)

lemma total_fits: "quantity_fits it \<Longrightarrow> \<exists>v. total it = Inr (PyFloat v)"
  using quantity_fits_float [of it] by (auto simp: total_def)

lemma py_sum_from_float:
  "list_all (\<lambda>x. \<exists>v. x = Inr (PyFloat v)) xs \<Longrightarrow> \<exists>r. py_sum_from (PyFloat a) xs = Inr (PyFloat r)"
  by (induction xs arbitrary: a) auto

lemma subtotal_float:
  assumes "items c \<noteq> []" "list_all quantity_fits (dict_values (items c))"
  shows "\<exists>s. subtotal c = Inr (PyFloat s)"
proof -
  obtain it its where its: "dict_values (items c) = it # its"
    using assms(1) by (cases "items c") (auto simp: dict_values_def)
  have fits: "quantity_fits it" "list_all quantity_fits its" using assms(2) its by simp_all
  obtain v where v: "total it = Inr (PyFloat v)" using total_fits [OF fits(1)] by blast
  have "list_all (\<lambda>x. \<exists>v. x = Inr (PyFloat v)) (map total its)"
    using fits(2) total_fits by (induction its) auto
  from py_sum_from_float [OF this, of "fadd (Finite 0) v"]
  show ?thesis by (simp add: subtotal_def its py_sum_def v zero_float)
qed

lemma rate_float: "\<exists>z. py_truediv (PyFloat p) (PyInt 100) = Inr (PyFloat z)"
  by (simp add: hundred fdiv_def)

lemma discount_float:
  assumes "subtotal c = Inr (PyFloat s)"
  shows "\<exists>d. discount_amount c = Inr (PyFloat d)"
proof -
  obtain z where "py_truediv (PyFloat (discount_percent c)) (PyInt 100) = Inr (PyFloat z)"
    using rate_float by blast
  then show ?thesis by (simp add: discount_amount_def assms del: py_truediv.simps)
qed

lemma tax_float:
  assumes "subtotal c = Inr (PyFloat s)" "discount_amount c = Inr (PyFloat d)"
  shows "\<exists>t. tax_amount c = Inr (PyFloat t)"
proof -
  obtain z where "py_truediv (PyFloat (tax_percent c)) (PyInt 100) = Inr (PyFloat z)"
    using rate_float by blast
  then show ?thesis by (simp add: tax_amount_def assms del: py_truediv.simps)
qed

lemma due_float:
  assumes "subtotal c = Inr (PyFloat s)" "discount_amount c = Inr (PyFloat d)"
    "tax_amount c = Inr (PyFloat t)"
  shows "\<exists>u. total_due c = Inr (PyFloat u)"
  by (simp add: total_due_def assms)

lemma format_num_float: "format_num comma p (PyFloat x) = Inr (format_float comma p x)"
  by (simp add: format_num_def)

lemma receipt_item_rows_fits:
  "list_all quantity_fits its \<Longrightarrow>
   \<exists>totals. list_all2 line_total its totals \<and>
            receipt_item_rows its = Inr (map2 receipt_row its totals)"
proof (induction its)
  case Nil
  then show ?case by simp
next
  case (Cons it its)
  then obtain totals where totals: "list_all2 line_total its totals"
    "receipt_item_rows its = Inr (map2 receipt_row its totals)"
    by auto
  obtain v where v: "total it = Inr (PyFloat v)" using Cons.prems total_fits [of it] by auto
  have "list_all2 line_total (it # its) (v # totals)"
    using totals(1) v by (simp add: line_total_def)
  moreover have "receipt_item_rows (it # its) = Inr (map2 receipt_row (it # its) (v # totals))"
    by (simp add: totals(2) v format_num_float receipt_row_def)
  ultimately show ?case by blast
qed

lemma cart_item_lines_fits:
  "list_all quantity_fits its \<Longrightarrow> \<exists>ls. cart_item_lines its = Inr ls"
proof (induction its)
  case Nil
  then show ?case by simp
next
  case (Cons it its)
  then obtain ls where ls: "cart_item_lines its = Inr ls" by auto
  obtain v where v: "total it = Inr (PyFloat v)" using Cons.prems total_fits [of it] by auto
  show ?case by (simp add: ls v format_currency_def format_num_float)
qed

lemma print_cart_fits:
  assumes "items c \<noteq> []" "list_all quantity_fits (dict_values (items c))"
  shows "\<exists>ls. print_cart c = Inr ls"
proof -
  obtain s where s: "subtotal c = Inr (PyFloat s)" using subtotal_float [OF assms] by blast
  obtain d where d: "discount_amount c = Inr (PyFloat d)" using discount_float [OF s] by blast
  obtain t where t: "tax_amount c = Inr (PyFloat t)" using tax_float [OF s d] by blast
  obtain u where u: "total_due c = Inr (PyFloat u)" using due_float [OF s d t] by blast
  obtain ls where ls: "cart_item_lines (dict_values (items c)) = Inr ls"
    using cart_item_lines_fits [OF assms(2)] by blast
  show ?thesis
    by (simp add: print_cart_def assms(1) s d t u ls format_currency_def format_num_float)
qed

lemma checkout_pass_fits:
  assumes "items (cart w) \<noteq> []" "list_all quantity_fits (dict_values (items (cart w)))"
    and "stdin w = l # rest" "strip l = ''7''"
  shows "\<exists>ls totals s d t u.
    print_cart (cart w) = Inr ls \<and>
    subtotal (cart w) = Inr (PyFloat s) \<and> discount_amount (cart w) = Inr (PyFloat d) \<and>
    tax_amount (cart w) = Inr (PyFloat t) \<and> total_due (cart w) = Inr (PyFloat u) \<and>
    list_all2 line_total (dict_values (items (cart w))) totals \<and>
    run_cashier_pass pf pint now w =
      Inr (True,
        \<lparr>cart = \<lparr>items = [], discount_percent = Finite 0, tax_percent = Finite 0\<rparr>,
         stdin = rest,
         stdout = stdout w @ menu_lines @ [Prompt ''Your choice: ''] @ ls @
                  [Done (''Receipt saved: receipts/receipt_'' @ now @ ''.csv'')],
         files = dict_set (files w) (''receipts/receipt_'' @ now @ ''.csv'')
           ([[''Item'', ''Qty'', ''Price'', ''Total'']] @
            map2 receipt_row (dict_values (items (cart w))) totals @ [[]] @
            [[''Subtotal'', format_float False 2 s],
             [''Discount %'', format_float False 1 (discount_percent (cart w))],
             [''Discount Amount'', format_float False 2 d],
             [''Tax %'', format_float False 1 (tax_percent (cart w))],
             [''Tax Amount'', format_float False 2 t],
             [''Total Due'', format_float False 2 u]])\<rparr>)"
proof -
  let ?c = "cart w"
  obtain s where s: "subtotal ?c = Inr (PyFloat s)" using subtotal_float [OF assms(1,2)] by blast
  obtain d where d: "discount_amount ?c = Inr (PyFloat d)" using discount_float [OF s] by blast
  obtain t where t: "tax_amount ?c = Inr (PyFloat t)" using tax_float [OF s d] by blast
  obtain u where u: "total_due ?c = Inr (PyFloat u)" using due_float [OF s d t] by blast
  obtain ls where ls: "print_cart ?c = Inr ls" using print_cart_fits [OF assms(1,2)] by blast
  obtain totals where rows: "list_all2 line_total (dict_values (items ?c)) totals"
    "receipt_item_rows (dict_values (items ?c)) = Inr (map2 receipt_row (dict_values (items ?c)) totals)"
    using receipt_item_rows_fits [OF assms(2)] by blast
  have "run_cashier_pass pf pint now w =
      Inr (True,
        \<lparr>cart = \<lparr>items = [], discount_percent = Finite 0, tax_percent = Finite 0\<rparr>,
         stdin = rest,
         stdout = stdout w @ menu_lines @ [Prompt ''Your choice: ''] @ ls @
                  [Done (''Receipt saved: receipts/receipt_'' @ now @ ''.csv'')],
         files = dict_set (files w) (''receipts/receipt_'' @ now @ ''.csv'')
           ([[''Item'', ''Qty'', ''Price'', ''Total'']] @
            map2 receipt_row (dict_values (items (cart w))) totals @ [[]] @
            [[''Subtotal'', format_float False 2 s],
             [''Discount %'', format_float False 1 (discount_percent (cart w))],
             [''Discount Amount'', format_float False 2 d],
             [''Tax %'', format_float False 1 (tax_percent (cart w))],
             [''Tax Amount'', format_float False 2 t],
             [''Total Due'', format_float False 2 u]])\<rparr>)"
    using assms(1)
    by (simp add: run_cashier_pass_def print_menu_def print_def input_def assms(3,4) ls
        save_receipt_def rows(2) s d t u format_num_float clear_def Let_def)
  with s d t u ls rows(1) show ?thesis by blast
qed

text \<open>A cart whose written values are finite: its quantities fit, and so do its totals.\<close>

lemma finite_amount_float: "finite_amount r \<Longrightarrow> \<exists>x. r = Inr (PyFloat x) \<and> ordinary x"
  by (auto simp: finite_amount_def split: sum.splits pynum.splits)

lemma finite_total_fits: "finite_amount (total it) \<Longrightarrow> quantity_fits it"
proof -
  assume "finite_amount (total it)"
  then obtain x where "total it = Inr (PyFloat x)" using finite_amount_float by blast
  then show ?thesis
    by (cases "int_to_float (quantity it)") (simp_all add: total_def quantity_fits_def)
qed

lemma totals_ordinary:
  "list_all2 line_total its totals \<Longrightarrow> list_all (\<lambda>it. finite_amount (total it)) its \<Longrightarrow>
   list_all ordinary totals"
proof (induction rule: list_all2_induct)
  case Nil
  then show ?case by simp
next
  case (Cons it v its totals)
  then show ?case by (simp add: line_total_def finite_amount_def)
qed

text \<open>
  Claim C7, amended. For every cart that is not empty and in which every value the
  receipt writes is a finite float (the prices, the line totals, the two percentages and
  the four amounts; so every quantity fits a float), the checkout command prints the cart
  and writes the receipt file, whose rows are, in order: the header
  \<open>Item, Qty, Price, Total\<close>; one row for each stored item, in the order of the cart,
  with the display name, the quantity, the price to 2 decimals and the line total to 2
  decimals; an empty row; and the six rows \<open>Subtotal\<close>, \<open>Discount %\<close>,
  \<open>Discount Amount\<close>, \<open>Tax %\<close>, \<open>Tax Amount\<close>, \<open>Total Due\<close>, the percentages to 1
  decimal and the amounts to 2 decimals. Afterwards the cart has no items, discount 0 and
  tax 0.
\<close>

theorem checkout_receipt:
  assumes "items (cart w) \<noteq> []" "receipt_values_finite (cart w)"
    and "stdin w = l # rest" "strip l = ''7''"
  shows "\<exists>ls totals s d t u.
    print_cart (cart w) = Inr ls \<and>
    subtotal (cart w) = Inr (PyFloat s) \<and> discount_amount (cart w) = Inr (PyFloat d) \<and>
    tax_amount (cart w) = Inr (PyFloat t) \<and> total_due (cart w) = Inr (PyFloat u) \<and>
    list_all2 line_total (dict_values (items (cart w))) totals \<and>
    run_cashier_pass pf pint now w =
      Inr (True,
        \<lparr>cart = \<lparr>items = [], discount_percent = Finite 0, tax_percent = Finite 0\<rparr>,
         stdin = rest,
         stdout = stdout w @ menu_lines @ [Prompt ''Your choice: ''] @ ls @
                  [Done (''Receipt saved: receipts/receipt_'' @ now @ ''.csv'')],
         files = dict_set (files w) (''receipts/receipt_'' @ now @ ''.csv'')
           ([[''Item'', ''Qty'', ''Price'', ''Total'']] @
            map2 receipt_row (dict_values (items (cart w))) totals @ [[]] @
            [[''Subtotal'', format_float False 2 s],
             [''Discount %'', format_float False 1 (discount_percent (cart w))],
             [''Discount Amount'', format_float False 2 d],
             [''Tax %'', format_float False 1 (tax_percent (cart w))],
             [''Tax Amount'', format_float False 2 t],
             [''Total Due'', format_float False 2 u]])\<rparr>) \<and>
    list_all (\<lambda>it. fixed_point 2 (format_float False 2 (price it)))
      (dict_values (items (cart w))) \<and>
    list_all (\<lambda>v. fixed_point 2 (format_float False 2 v)) totals \<and>
    fixed_point 2 (format_float False 2 s) \<and>
    fixed_point 1 (format_float False 1 (discount_percent (cart w))) \<and>
    fixed_point 2 (format_float False 2 d) \<and>
    fixed_point 1 (format_float False 1 (tax_percent (cart w))) \<and>
    fixed_point 2 (format_float False 2 t) \<and>
    fixed_point 2 (format_float False 2 u)"
proof -
  let ?c = "cart w"
  let ?its = "dict_values (items ?c)"
  have fin: "list_all (\<lambda>it. ordinary (price it) \<and> finite_amount (total it)) ?its"
    "ordinary (discount_percent ?c)" "ordinary (tax_percent ?c)"
    "finite_amount (subtotal ?c)" "finite_amount (discount_amount ?c)"
    "finite_amount (tax_amount ?c)" "finite_amount (total_due ?c)"
    using assms(2) by (simp_all add: receipt_values_finite_def)
  have ft: "list_all (\<lambda>it. finite_amount (total it)) ?its"
    and fp: "list_all (\<lambda>it. ordinary (price it)) ?its"
    using fin(1) by (simp_all add: list_all_iff)
  have fits: "list_all quantity_fits ?its"
    using ft finite_total_fits by (auto simp: list_all_iff)
  from checkout_pass_fits [OF assms(1) fits assms(3,4), of pf pint now]
  obtain ls totals s d t u where r:
    "print_cart ?c = Inr ls"
    "subtotal ?c = Inr (PyFloat s)" "discount_amount ?c = Inr (PyFloat d)"
    "tax_amount ?c = Inr (PyFloat t)" "total_due ?c = Inr (PyFloat u)"
    "list_all2 line_total ?its totals"
    "run_cashier_pass pf pint now w =
      Inr (True,
        \<lparr>cart = \<lparr>items = [], discount_percent = Finite 0, tax_percent = Finite 0\<rparr>,
         stdin = rest,
         stdout = stdout w @ menu_lines @ [Prompt ''Your choice: ''] @ ls @
                  [Done (''Receipt saved: receipts/receipt_'' @ now @ ''.csv'')],
         files = dict_set (files w) (''receipts/receipt_'' @ now @ ''.csv'')
           ([[''Item'', ''Qty'', ''Price'', ''Total'']] @
            map2 receipt_row (dict_values (items (cart w))) totals @ [[]] @
            [[''Subtotal'', format_float False 2 s],
             [''Discount %'', format_float False 1 (discount_percent (cart w))],
             [''Discount Amount'', format_float False 2 d],
             [''Tax %'', format_float False 1 (tax_percent (cart w))],
             [''Tax Amount'', format_float False 2 t],
             [''Total Due'', format_float False 2 u]])\<rparr>)"
    by blast
  have o: "ordinary s" "ordinary d" "ordinary t" "ordinary u"
    using fin(4-7) r(2-5) by (simp_all add: finite_amount_def)
  have ot: "list_all ordinary totals" using totals_ordinary [OF r(6) ft] .
  have c1: "list_all (\<lambda>it. fixed_point 2 (format_float False 2 (price it))) ?its"
    using fp by (auto simp: list_all_iff format_float_fixed_point)
  have c2: "list_all (\<lambda>v. fixed_point 2 (format_float False 2 v)) totals"
    using ot by (auto simp: list_all_iff format_float_fixed_point)
  have c3: "fixed_point 2 (format_float False 2 s)" "fixed_point 2 (format_float False 2 d)"
    "fixed_point 2 (format_float False 2 t)" "fixed_point 2 (format_float False 2 u)"
    "fixed_point 1 (format_float False 1 (discount_percent ?c))"
    "fixed_point 1 (format_float False 1 (tax_percent ?c))"
    using o fin(2,3) by (simp_all add: format_float_fixed_point)
  show ?thesis
    by (intro exI [of _ ls] exI [of _ totals] exI [of _ s] exI [of _ d] exI [of _ t]
        exI [of _ u] conjI) (rule r c1 c2 c3)+
qed

lemma inf_formats:
  "format_float False 1 (Finite 0) = ''0.0''"
  "str_int 1 = ''1''"
  by code_simp+

lemma inf_total: "total \<lparr>name = ''x'', price = PosInf, quantity = 1\<rparr> = Inr (PyFloat PosInf)"
  by (simp add: total_def one fmul_def signed_inf_def)

lemma inf_subtotal: "subtotal inf_cart = Inr (PyFloat PosInf)"
  by (simp add: subtotal_def inf_cart_def dict_values_def py_sum_def inf_total zero_float fadd_def)

lemma inf_discount: "discount_amount inf_cart = Inr (PyFloat NaN)"
  by (simp add: discount_amount_def inf_subtotal del: py_truediv.simps)
     (simp add: inf_cart_def hundred fdiv_def signed_zero_def fmul_def)

lemma inf_tax: "tax_amount inf_cart = Inr (PyFloat NaN)"
  by (simp add: tax_amount_def inf_subtotal inf_discount del: py_truediv.simps)
     (simp add: inf_cart_def hundred fdiv_def signed_zero_def fmul_def fsub_def fadd_def)

lemma inf_due: "total_due inf_cart = Inr (PyFloat NaN)"
  by (simp add: total_due_def inf_subtotal inf_discount inf_tax fsub_def fadd_def)

lemma inf_print:
  "print_cart inf_cart =
     Inr [Msg ''Current cart:'', Text (replicate 50 CHR ''-''),
          Text ''x | Qty: 1 | Price: inf | Total: inf'', Text (replicate 50 CHR ''-''),
          Text ''Subtotal: inf'', Text ''Total Due: nan'']"
  by (simp add: print_cart_def inf_subtotal inf_due format_currency_def format_num_float
        format_float.simps(3,5))
     (simp add: inf_cart_def dict_values_def inf_total format_currency_def format_num_float
        format_float.simps(3,5) inf_formats)

lemma inf_receipt:
  "save_receipt inf_cart ''receipts'' ''20240101_120000'' [] =
     Inr (''receipts/receipt_20240101_120000.csv'',
          [(''receipts/receipt_20240101_120000.csv'',
            [[''Item'', ''Qty'', ''Price'', ''Total''],
             [''x'', ''1'', ''inf'', ''inf''],
             [],
             [''Subtotal'', ''inf''],
             [''Discount %'', ''0.0''],
             [''Discount Amount'', ''nan''],
             [''Tax %'', ''0.0''],
             [''Tax Amount'', ''nan''],
             [''Total Due'', ''nan'']])])"
  by (simp add: save_receipt_def inf_subtotal inf_discount inf_tax inf_due format_num_float
        format_float.simps(3,5) Let_def del: One_nat_def)
     (simp add: inf_cart_def dict_values_def inf_total format_num_float
        format_float.simps(3,5) inf_formats del: One_nat_def)

text \<open>
  Claim C7 as stated, for every cart that is not empty, fails in two ways. When a
  quantity does not fit a float, \<open>price * quantity\<close> raises \<open>OverflowError\<close> while the
  cart is printed, before any file is written. When a price is infinite (which
  \<open>prompt_float\<close> accepts), the receipt is written with the cells \<open>inf\<close> and \<open>nan\<close>,
  which have no decimals.
\<close>

theorem checkout_receipt_counterexample:
  "items (cart huge_world) \<noteq> [] \<and>
   run_cashier_pass reject_float reject_int ''20240101_120000'' huge_world = Inl OverflowError \<and>
   items (cart inf_world) \<noteq> [] \<and>
   run_cashier_pass reject_float reject_int ''20240101_120000'' inf_world =
     Inr (True,
       \<lparr>cart = \<lparr>items = [], discount_percent = Finite 0, tax_percent = Finite 0\<rparr>,
        stdin = [],
        stdout = menu_lines @
          [Prompt ''Your choice: '', Msg ''Current cart:'', Text (replicate 50 CHR ''-''),
           Text ''x | Qty: 1 | Price: inf | Total: inf'', Text (replicate 50 CHR ''-''),
           Text ''Subtotal: inf'', Text ''Total Due: nan'',
           Done ''Receipt saved: receipts/receipt_20240101_120000.csv''],
        files = [(''receipts/receipt_20240101_120000.csv'',
            [[''Item'', ''Qty'', ''Price'', ''Total''],
             [''x'', ''1'', ''inf'', ''inf''],
             [],
             [''Subtotal'', ''inf''],
             [''Discount %'', ''0.0''],
             [''Discount Amount'', ''nan''],
             [''Tax %'', ''0.0''],
             [''Tax Amount'', ''nan''],
             [''Total Due'', ''nan'']])]\<rparr>) \<and>
   \<not> fixed_point 2 ''inf''"
proof -
  from huge_total have "print_cart (cart huge_world) = Inl OverflowError"
    by (simp add: print_cart_def huge_world_def huge_cart_def dict_values_def format_currency_def
        format_num_float)
  then have h: "items (cart huge_world) \<noteq> [] \<and>
    run_cashier_pass reject_float reject_int ''20240101_120000'' huge_world = Inl OverflowError"
    by (simp add: run_cashier_pass_def print_menu_def print_def input_def)
       (simp add: huge_world_def huge_cart_def strip_def isspace_def)
  have s7: "strip ''7'' = ''7''" by (simp add: strip_def isspace_def)
  have c: "cart inf_world = inf_cart" "stdin inf_world = [''7'']"
    "stdout inf_world = []" "files inf_world = []"
    by (simp_all add: inf_world_def)
  have ne: "items inf_cart \<noteq> []" by (simp add: inf_cart_def)
  have "run_cashier_pass reject_float reject_int ''20240101_120000'' inf_world =
     Inr (True,
       \<lparr>cart = \<lparr>items = [], discount_percent = Finite 0, tax_percent = Finite 0\<rparr>,
        stdin = [],
        stdout = menu_lines @
          [Prompt ''Your choice: '', Msg ''Current cart:'', Text (replicate 50 CHR ''-''),
           Text ''x | Qty: 1 | Price: inf | Total: inf'', Text (replicate 50 CHR ''-''),
           Text ''Subtotal: inf'', Text ''Total Due: nan'',
           Done ''Receipt saved: receipts/receipt_20240101_120000.csv''],
        files = [(''receipts/receipt_20240101_120000.csv'',
            [[''Item'', ''Qty'', ''Price'', ''Total''],
             [''x'', ''1'', ''inf'', ''inf''],
             [],
             [''Subtotal'', ''inf''],
             [''Discount %'', ''0.0''],
             [''Discount Amount'', ''nan''],
             [''Tax %'', ''0.0''],
             [''Tax Amount'', ''nan''],
             [''Total Due'', ''nan'']])]\<rparr>)"
    by (simp add: run_cashier_pass_def print_menu_def print_def input_def c s7 ne inf_print
        inf_receipt clear_def Let_def)
  with h ne c(1) not_fixed_point_inf show ?thesis by simp
qed

lemma fifty_total: "total \<lparr>name = ''Widget'', price = Finite 50, quantity = 2\<rparr> = Inr (PyFloat (Finite 100))"
  by (simp add: total_def two fmul_def round64_100)

lemma fifty_discount: "discount_amount fifty_cart = Inr (PyFloat (Finite 10))"
  by (simp add: discount_amount_def fifty_subtotal del: py_arith_simps)
     (simp add: fifty_cart_def rate_10 discount_100 del: py_arith_simps)

lemma fifty_tax: "tax_amount fifty_cart = Inr (PyFloat (Finite (9 / 2)))"
  by (simp add: tax_amount_def fifty_subtotal fifty_discount base_90 del: py_arith_simps)
     (simp add: fifty_cart_def rate_5 tax_90 del: py_arith_simps)

lemma fifty_due: "total_due fifty_cart = Inr (PyFloat (Finite (189 / 2)))"
  by (simp add: total_due_def fifty_subtotal fifty_discount fifty_tax base_90 due_90
      del: py_arith_simps)

lemma fifty_formats:
  "format_float False 2 (Finite 50) = ''50.00''"
  "format_float False 2 (Finite 100) = ''100.00''"
  "format_float False 2 (Finite 10) = ''10.00''"
  "format_float False 2 (Finite (9 / 2)) = ''4.50''"
  "format_float False 2 (Finite (189 / 2)) = ''94.50''"
  "format_float False 1 (Finite 10) = ''10.0''"
  "format_float False 1 (Finite 5) = ''5.0''"
  "str_int 2 = ''2''"
  by code_simp+

lemma fifty_finite: "receipt_values_finite fifty_cart"
  by (simp add: receipt_values_finite_def finite_amount_def ordinary_def fifty_subtotal
        fifty_discount fifty_tax fifty_due)
     (simp add: fifty_cart_def dict_values_def fifty_total finite_amount_def ordinary_def)

theorem checkout_receipt_witness:
  "\<exists>ls. run_cashier_pass reject_float reject_int ''20240101_120000'' fifty_world =
     Inr (True,
       \<lparr>cart = \<lparr>items = [], discount_percent = Finite 0, tax_percent = Finite 0\<rparr>,
        stdin = [],
        stdout = menu_lines @ [Prompt ''Your choice: ''] @ ls @
                 [Done ''Receipt saved: receipts/receipt_20240101_120000.csv''],
        files = [(''receipts/receipt_20240101_120000.csv'',
           [[''Item'', ''Qty'', ''Price'', ''Total''],
            [''Widget'', ''2'', ''50.00'', ''100.00''],
            [],
            [''Subtotal'', ''100.00''],
            [''Discount %'', ''10.0''],
            [''Discount Amount'', ''10.00''],
            [''Tax %'', ''5.0''],
            [''Tax Amount'', ''4.50''],
            [''Total Due'', ''94.50'']])]\<rparr>) \<and>
   fixed_point 2 ''50.00'' \<and> fixed_point 2 ''100.00'' \<and> fixed_point 1 ''10.0'' \<and>
   fixed_point 2 ''10.00'' \<and> fixed_point 1 ''5.0'' \<and> fixed_point 2 ''4.50'' \<and>
   fixed_point 2 ''94.50''"
proof -
  have c: "cart fifty_world = fifty_cart" "stdin fifty_world = [''7'']"
    "stdout fifty_world = []" "files fifty_world = []"
    by (simp_all add: fifty_world_def)
  have ne: "items (cart fifty_world) \<noteq> []" by (simp add: c fifty_cart_def)
  have fin: "receipt_values_finite (cart fifty_world)" by (simp add: c fifty_finite)
  have s7: "strip ''7'' = ''7''" by (simp add: strip_def isspace_def)
  have p: "discount_percent fifty_cart = Finite 10" "tax_percent fifty_cart = Finite 5"
    by (simp_all add: fifty_cart_def)
  from checkout_receipt [OF ne fin c(2) s7, of reject_float reject_int "''20240101_120000''"]
  obtain ls totals s d t u where r:
    "subtotal fifty_cart = Inr (PyFloat s)" "discount_amount fifty_cart = Inr (PyFloat d)"
    "tax_amount fifty_cart = Inr (PyFloat t)" "total_due fifty_cart = Inr (PyFloat u)"
    "list_all2 line_total (dict_values (items fifty_cart)) totals"
    "run_cashier_pass reject_float reject_int ''20240101_120000'' fifty_world =
      Inr (True,
        \<lparr>cart = \<lparr>items = [], discount_percent = Finite 0, tax_percent = Finite 0\<rparr>,
         stdin = [],
         stdout = stdout fifty_world @ menu_lines @ [Prompt ''Your choice: ''] @ ls @
                  [Done (''Receipt saved: receipts/receipt_'' @ ''20240101_120000'' @ ''.csv'')],
         files = dict_set (files fifty_world) (''receipts/receipt_'' @ ''20240101_120000'' @ ''.csv'')
           ([[''Item'', ''Qty'', ''Price'', ''Total'']] @
            map2 receipt_row (dict_values (items (cart fifty_world))) totals @ [[]] @
            [[''Subtotal'', format_float False 2 s],
             [''Discount %'', format_float False 1 (discount_percent (cart fifty_world))],
             [''Discount Amount'', format_float False 2 d],
             [''Tax %'', format_float False 1 (tax_percent (cart fifty_world))],
             [''Tax Amount'', format_float False 2 t],
             [''Total Due'', format_float False 2 u]])\<rparr>)"
    "list_all (\<lambda>it. fixed_point 2 (format_float False 2 (price it)))
      (dict_values (items fifty_cart))"
    "list_all (\<lambda>v. fixed_point 2 (format_float False 2 v)) totals"
    "fixed_point 2 (format_float False 2 s)"
    "fixed_point 1 (format_float False 1 (discount_percent fifty_cart))"
    "fixed_point 2 (format_float False 2 d)"
    "fixed_point 1 (format_float False 1 (tax_percent fifty_cart))"
    "fixed_point 2 (format_float False 2 t)"
    "fixed_point 2 (format_float False 2 u)"
    unfolding c by blast
  have v: "s = Finite 100" "d = Finite 10" "t = Finite (9 / 2)" "u = Finite (189 / 2)"
    using r(1-4) by (simp_all add: fifty_subtotal fifty_discount fifty_tax fifty_due)
  have "totals = [Finite 100]"
    using r(5)
    by (auto simp: fifty_cart_def dict_values_def list_all2_Cons1 line_total_def fifty_total)
  then have rows: "map2 receipt_row (dict_values (items fifty_cart)) totals =
      [[''Widget'', ''2'', ''50.00'', ''100.00'']]"
    by (simp add: fifty_cart_def dict_values_def receipt_row_def fifty_formats)
  have run: "run_cashier_pass reject_float reject_int ''20240101_120000'' fifty_world =
     Inr (True,
       \<lparr>cart = \<lparr>items = [], discount_percent = Finite 0, tax_percent = Finite 0\<rparr>,
        stdin = [],
        stdout = menu_lines @ [Prompt ''Your choice: ''] @ ls @
                 [Done ''Receipt saved: receipts/receipt_20240101_120000.csv''],
        files = [(''receipts/receipt_20240101_120000.csv'',
           [[''Item'', ''Qty'', ''Price'', ''Total''],
            [''Widget'', ''2'', ''50.00'', ''100.00''],
            [],
            [''Subtotal'', ''100.00''],
            [''Discount %'', ''10.0''],
            [''Discount Amount'', ''10.00''],
            [''Tax %'', ''5.0''],
            [''Tax Amount'', ''4.50''],
            [''Total Due'', ''94.50'']])]\<rparr>)"
    using r(6) by (simp add: v rows c p fifty_formats del: One_nat_def)
  have fx: "fixed_point 2 ''50.00''" "fixed_point 2 ''100.00''" "fixed_point 1 ''10.0''"
    "fixed_point 2 ''10.00''" "fixed_point 1 ''5.0''" "fixed_point 2 ''4.50''"
    "fixed_point 2 ''94.50''"
    using r(7,9-14)
    by (simp_all add: v p fifty_cart_def dict_values_def fifty_formats del: One_nat_def)
  from run fx show ?thesis by blast
qed

end
